theory Spec2Isabelle
  imports Main "HOL-Library.Sublist" "HOL-Library.Multiset"
begin

section \<open>JavaScript strings and arrays\<close>

text \<open>
  The interactive driver of \<^verbatim>\<open>src/commands/interactive-ui.js\<close> works on JavaScript
  strings and arrays. A string is modelled as a \<^typ>\<open>string\<close>; the names the driver handles
  (contract names, ABI identifiers, Solidity type names) are ASCII. The one non-ASCII string of
  the source, the back entry, is only ever compared for equality and is written as its UTF-8
  bytes.
\<close>

text \<open>\<^verbatim>\<open>String.prototype.toLowerCase\<close>, on ASCII: the letters A..Z (codes 65..90) move
  by 32, every other character stays.\<close>

definition toLowerChar :: "char \<Rightarrow> char" where
  "toLowerChar c =
     (if 65 \<le> (of_char c :: nat) \<and> (of_char c :: nat) \<le> 90
      then char_of ((of_char c :: nat) + 32) else c)"

definition toLowerCase :: "string \<Rightarrow> string" where
  "toLowerCase s = map toLowerChar s"

text \<open>\<^verbatim>\<open>s.includes(q)\<close>: does \<open>q\<close> occur in \<open>s\<close> as a contiguous run; the empty string
  occurs in every string.\<close>

fun str_includes :: "string \<Rightarrow> string \<Rightarrow> bool" where
  "str_includes [] q = (q = [])"
| "str_includes (c # cs) q = (prefix q (c # cs) \<or> str_includes cs q)"

text \<open>\<^verbatim>\<open>s.split(sep)\<close> for a one-character separator: the pieces between the separators,
  in order; a string without separator is its own single piece.\<close>

fun str_split :: "char \<Rightarrow> string \<Rightarrow> string list" where
  "str_split sep [] = [[]]"
| "str_split sep (c # cs) =
     (if c = sep then [] # str_split sep cs
      else (case str_split sep cs of
              [] \<Rightarrow> [[c]]
            | p # ps \<Rightarrow> (c # p) # ps))"

text \<open>\<^verbatim>\<open>xs.join(sep)\<close>.\<close>

fun join :: "string \<Rightarrow> string list \<Rightarrow> string" where
  "join sep [] = []"
| "join sep [x] = x"
| "join sep (x # y # ys) = x @ sep @ join sep (y # ys)"

text \<open>\<^verbatim>\<open>xs.indexOf(x)\<close>: the first position of \<open>x\<close>, or \<open>-1\<close>.\<close>

fun indexOf :: "'a list \<Rightarrow> 'a \<Rightarrow> int" where
  "indexOf [] x = - 1"
| "indexOf (y # ys) x =
     (if y = x then 0
      else (let i = indexOf ys x in if i < 0 then - 1 else i + 1))"

text \<open>\<^verbatim>\<open>xs.splice(start, deleteCount)\<close>, the array it leaves behind: a negative \<open>start\<close>
  counts from the end (and is clamped at 0), a \<open>start\<close> beyond the end is clamped to the
  length, and no more elements are deleted than there are from \<open>start\<close> on.\<close>

definition splice :: "'a list \<Rightarrow> int \<Rightarrow> nat \<Rightarrow> 'a list" where
  "splice xs start deleteCount =
     (let len = int (length xs);
          actualStart = (if start < 0 then max (len + start) 0 else min start len);
          actualDeleteCount = min (int deleteCount) (len - actualStart)
      in take (nat actualStart) xs @ drop (nat (actualStart + actualDeleteCount)) xs)"

text \<open>\<^verbatim>\<open>xs.unshift(x)\<close>, the array it leaves behind.\<close>

definition unshift :: "'a list \<Rightarrow> 'a \<Rightarrow> 'a list" where
  "unshift xs x = x # xs"

text \<open>\<^verbatim>\<open>xs.sort(cmp)\<close>: the sort of ECMAScript 2019 is stable, and for a comparator that
  is a difference of keys its result is the one stable arrangement by ascending key. It is
  modelled as an insertion sort that places an element before the first one it does not
  exceed.\<close>

fun insert_by :: "('a \<Rightarrow> 'a \<Rightarrow> int) \<Rightarrow> 'a \<Rightarrow> 'a list \<Rightarrow> 'a list" where
  "insert_by cmp x [] = [x]"
| "insert_by cmp x (y # ys) =
     (if cmp x y \<le> 0 then x # y # ys else y # insert_by cmp x ys)"

fun sort_by :: "('a \<Rightarrow> 'a \<Rightarrow> int) \<Rightarrow> 'a list \<Rightarrow> 'a list" where
  "sort_by cmp [] = []"
| "sort_by cmp (x # xs) = insert_by cmp x (sort_by cmp xs)"

section \<open>Library collaborators\<close>

text \<open>Modelled from the spec: the package \<^verbatim>\<open>js-levenshtein\<close> is an external dependency
  that is not under \<^verbatim>\<open>src/\<close>; the spec calls what it computes the edit distance between
  the query and the function's name. It is the Levenshtein distance: the least number of
  single-character insertions, deletions and substitutions.\<close>

fun levenshtein :: "string \<Rightarrow> string \<Rightarrow> nat" where
  "levenshtein [] ys = length ys"
| "levenshtein (x # xs) [] = length (x # xs)"
| "levenshtein (x # xs) (y # ys) =
     (if x = y then levenshtein xs ys
      else 1 + min (levenshtein xs (y # ys))
                   (min (levenshtein (x # xs) ys) (levenshtein xs ys)))"

text \<open>Modelled from the spec: \<^verbatim>\<open>synthetix.toBytes32\<close> belongs to the external
  \<^verbatim>\<open>synthetix\<close> package, not under \<^verbatim>\<open>src/\<close>; the spec calls it the protocol's
  canonical string-to-word conversion into a fixed-length byte encoding. The word is written
  as the text \<open>0x\<close> followed by two hexadecimal digits for each character and padded with
  zeros on the right to 64 digits.\<close>

definition hexDigit :: "nat \<Rightarrow> char" where
  "hexDigit n = (if n < 10 then char_of (48 + n) else char_of (87 + n))"

definition asciiToHex :: "string \<Rightarrow> string" where
  "asciiToHex s =
     concat (map (\<lambda>c. [hexDigit ((of_char c :: nat) div 16), hexDigit ((of_char c :: nat) mod 16)]) s)"

definition toBytes32 :: "string \<Rightarrow> string" where
  "toBytes32 key = ''0x'' @ asciiToHex key @ replicate (64 - length (asciiToHex key)) (CHR ''0'')"

section \<open>The data model: ABI entries, contracts, the registry\<close>

record param =
  param_name :: string
  param_type :: string

text \<open>An ABI entry as the JSON has it. A key that an entry does not have (the name of a
  constructor or fallback, the outputs of an event) is \<open>None\<close>.\<close>

record abi_item =
  name :: "string option"
  type :: string
  inputs :: "param list option"
  outputs :: "param list option"
  stateMutability :: "string option"

record target =
  address :: string
  source :: string

record source_data =
  abi :: "abi_item list"
  bytecode :: string

text \<open>The contract binding built by \<^verbatim>\<open>new ethers.Contract(target.address, source.abi, ...)\<close>.\<close>

record contract =
  contract_address :: string
  contract_abi :: "abi_item list"

datatype error = TypeError | Failure string

text \<open>What the session reads from outside: the keys of \<^verbatim>\<open>deploymentData.targets\<close> in
  file order, the registry lookups \<^verbatim>\<open>getTarget\<close> and \<^verbatim>\<open>getSource\<close> of the
  \<^verbatim>\<open>synthetix\<close> package (a name the deployment does not know gives \<^verbatim>\<open>undefined\<close>,
  here \<open>None\<close>), and the provider's \<^verbatim>\<open>getCode\<close>.\<close>

record env =
  targetNames :: "string list"
  getTarget :: "string \<Rightarrow> target option"
  getSource :: "string \<Rightarrow> source_data option"
  getCode :: "string \<Rightarrow> error + string"

section \<open>The Contract Navigator\<close>

text \<open>\<^verbatim>\<open>prioritizeTarget\<close> (lines 152-155) works on the array \<^verbatim>\<open>targets\<close> in place;
  the model returns the array it leaves behind.\<close>

definition prioritizeTarget :: "string list \<Rightarrow> string \<Rightarrow> string list" where
  "prioritizeTarget targets itemName =
     unshift (splice targets (indexOf targets itemName) 1) itemName"

text \<open>The list the navigator searches (lines 150-157): the keys of the deployment's targets
  after \<^verbatim>\<open>prioritizeTarget('Synthetix')\<close>.\<close>

definition pinnedTargets :: "string list \<Rightarrow> string list" where
  "pinnedTargets keys = prioritizeTarget keys ''Synthetix''"

text \<open>\<^verbatim>\<open>searchTargets\<close> (lines 159-165); a query that is \<^verbatim>\<open>undefined\<close> defaults to the
  empty string.\<close>

definition searchTargets :: "string list \<Rightarrow> string \<Rightarrow> string list" where
  "searchTargets targets query =
     filter (\<lambda>target. str_includes (toLowerCase target) (toLowerCase query)) targets"

section \<open>The Function Selector\<close>

text \<open>A template literal prints a missing name as \<^verbatim>\<open>undefined\<close>.\<close>

definition nameText :: "abi_item \<Rightarrow> string" where
  "nameText item = (case name item of None \<Rightarrow> ''undefined'' | Some n \<Rightarrow> n)"

definition combineNameAndType :: "param list option \<Rightarrow> string list" where
  "combineNameAndType items =
     (case items of
        None \<Rightarrow> []
      | Some ps \<Rightarrow>
          if length ps > 0
          then map (\<lambda>item. if param_name item \<noteq> [] then param_type item @ '' '' @ param_name item
                            else param_type item) ps
          else [])"

definition reduceSignature :: "abi_item \<Rightarrow> string" where
  "reduceSignature item =
     (let inputPart = nameText item @ ''('' @ join '', '' (combineNameAndType (inputs item)) @ '')'';
          outs = combineNameAndType (outputs item);
          outputPart = (if length outs > 0 then '' returns('' @ join '', '' outs @ '')'' else []);
          outputPart' = (if stateMutability item = Some ''view'' then '' view'' @ outputPart
                         else outputPart)
      in inputPart @ outputPart')"

text \<open>The back entry: the arrow U+21A9 followed by \<open> BACK\<close>.\<close>

definition escItem :: string where
  "escItem = [CHR 0xE2, CHR 0x86, CHR 0xA9] @ '' BACK''"

text \<open>The filter of \<^verbatim>\<open>searchAbi\<close> (lines 231-236): an entry is kept when its name is
  truthy (present and not empty), its type is \<open>function\<close> and its lower-cased name includes
  the lower-cased query.\<close>

definition abiFilter :: "abi_item list \<Rightarrow> string \<Rightarrow> abi_item list" where
  "abiFilter items query =
     filter (\<lambda>item. case name item of
                       None \<Rightarrow> False
                     | Some n \<Rightarrow>
                         if n \<noteq> [] \<and> type item = ''function''
                         then str_includes (toLowerCase n) (toLowerCase query)
                         else False) items"

text \<open>The comparator of lines 239-243 and the sort by it. Every entry that reaches the sort
  has passed the filter and so has a name.\<close>

definition proximity :: "string \<Rightarrow> abi_item \<Rightarrow> nat" where
  "proximity query a = levenshtein (nameText a) query"

definition abiMatches :: "abi_item list \<Rightarrow> string \<Rightarrow> abi_item list" where
  "abiMatches items query =
     sort_by (\<lambda>a b. int (proximity query a) - int (proximity query b)) (abiFilter items query)"

text \<open>\<^verbatim>\<open>searchAbi\<close> (lines 227-252): the signatures of the ranked matches, with the back
  entry spliced in at position 0 when the query is empty.\<close>

definition searchAbi :: "abi_item list \<Rightarrow> string \<Rightarrow> string list" where
  "searchAbi items query =
     (let signatures = map reduceSignature (abiMatches items query)
      in if query = [] then escItem # signatures else signatures)"

text \<open>Lines 271-272: the name is the piece of the chosen signature before the first
  \<open>(\<close>, and the entry is the first one of the whole ABI with that name.\<close>

definition abiItemName :: "string \<Rightarrow> string" where
  "abiItemName abiItemSignature =
     (case str_split (CHR ''('') abiItemSignature of [] \<Rightarrow> [] | p # ps \<Rightarrow> p)"

definition findAbiItem :: "abi_item list \<Rightarrow> string \<Rightarrow> abi_item option" where
  "findAbiItem items abiItemSignature =
     List.find (\<lambda>item. name item = Some (abiItemName abiItemSignature)) items"

section \<open>Input coercion\<close>

text \<open>The name under which a parameter is prompted (line 282): its name, or its type when
  the name is empty.\<close>

definition promptName :: "param \<Rightarrow> string" where
  "promptName input = (if param_name input \<noteq> [] then param_name input else param_type input)"

text \<open>The prompt library stores the typed text in the answers object under the prompt's name
  read as a property path: a dot, or a pair of brackets with no bracket in between, makes the
  name a path of several keys. Names here carry no quotes.\<close>

fun closesBracket :: "string \<Rightarrow> bool" where
  "closesBracket [] = False"
| "closesBracket (c # cs) =
     (if c = CHR '']'' then True else if c = CHR ''['' then False else closesBracket cs)"

fun bracketGroup :: "string \<Rightarrow> bool" where
  "bracketGroup [] = False"
| "bracketGroup (c # cs) = ((c = CHR ''['' \<and> closesBracket cs) \<or> bracketGroup cs)"

definition deepPath :: "string \<Rightarrow> bool" where
  "deepPath nm \<longleftrightarrow> CHR ''.'' \<in> set nm \<or> bracketGroup nm"

text \<open>\<^verbatim>\<open>answer[name]\<close> (line 301): the typed text when the name is a single key, and
  \<^verbatim>\<open>undefined\<close>, here \<open>None\<close>, when the text was stored along a path.\<close>

definition answerRead :: "string \<Rightarrow> string \<Rightarrow> string option" where
  "answerRead nm typed = (if deepPath nm then None else Some typed)"

text \<open>The value pushed for one parameter (lines 301-317): one text, a sequence of texts, or
  \<^verbatim>\<open>undefined\<close>.\<close>

datatype coerced = Single string | Sequence "string list" | Missing

text \<open>Lines 286-287 and 304-314. Calling \<^verbatim>\<open>split\<close> on \<^verbatim>\<open>undefined\<close> throws a
  \<^verbatim>\<open>TypeError\<close>; the word conversion of \<^verbatim>\<open>undefined\<close> is that of the empty text.\<close>

definition processInput :: "string \<Rightarrow> string option \<Rightarrow> error + coerced" where
  "processInput inputType answer =
     (let requiresBytes32Util = str_includes inputType ''bytes32'';
          isArray = str_includes inputType ''[]''
      in if isArray
         then (case answer of
                 None \<Rightarrow> Inl TypeError
               | Some text \<Rightarrow>
                   (let processed = str_split (CHR '','') text
                    in if requiresBytes32Util then Inr (Sequence (map toBytes32 processed))
                       else Inr (Sequence processed)))
         else if requiresBytes32Util
              then Inr (Single (toBytes32 (case answer of None \<Rightarrow> [] | Some text \<Rightarrow> text)))
              else (case answer of None \<Rightarrow> Inr Missing | Some text \<Rightarrow> Inr (Single text)))"

text \<open>What becomes of the text typed at the prompt of one parameter (lines 282-317).\<close>

definition coerceInput :: "param \<Rightarrow> string \<Rightarrow> error + coerced" where
  "coerceInput input typed =
     processInput (param_type input) (answerRead (promptName input) typed)"

text \<open>The prompt message of one parameter (lines 282-291).\<close>

definition inputMessage :: "param \<Rightarrow> string" where
  "inputMessage input =
     (let requiresBytes32Util = str_includes (param_type input) ''bytes32'';
          isArray = str_includes (param_type input) ''[]''
      in if requiresBytes32Util
         then promptName input @ '' (uses toBytes32'' @
                (if isArray then '' - if array, use a,b,c syntax'' else []) @ '')''
         else promptName input)"

section \<open>The Call Driver\<close>

type_synonym tx = string

type_synonym receipt = string

text \<open>What a successful read call resolves to: the binding decodes the returned data into a
  value or a tuple of values; it never resolves to \<^verbatim>\<open>undefined\<close>.\<close>

datatype retval = BigNumber int | Text string | Tuple "retval list"

text \<open>The variable \<^verbatim>\<open>result\<close> of \<^verbatim>\<open>pickFunction\<close> (line 331): \<^verbatim>\<open>undefined\<close> until
  assigned, then the value of a read call, the receipt of a transaction, or the unsuccessful
  answer of a collaborator.\<close>

datatype result = Undefined | Returned retval | Receipt receipt | Unsuccessful

text \<open>What the driver does that can be observed: its prompts, its calls to the collaborators
  and its reports. The lines of progress text in between are left out.\<close>

datatype event =
    PromptContract
  | PrintTarget string string
  | WarnNoCode string string
  | PromptFunction
  | PromptInput string
  | PromptConfirm
  | Query string "coerced list"
  | Stage string "coerced list"
  | Submit tx
  | AwaitReceipt tx
  | LogError error
  | LogReceipt result
  | PrintOutput string string "retval option"
  | PrintFatal error

text \<open>One pass through \<^verbatim>\<open>pickFunction\<close> meets the user's answers and the outcomes of the
  outside world: the signature picked at the function prompt, the text typed at the prompt
  of the \<open>i\<close>-th parameter, the answer to \<open>Send transaction?\<close>, and how the read call, the
  staging, the submission and the wait for the receipt end.\<close>

record round =
  abiItemSignature :: string
  answers :: "nat \<Rightarrow> string"
  confirmation :: bool
  queried :: "error + retval"
  staged :: "error + tx"
  submitted :: "error + unit"
  receipted :: "error + receipt"

text \<open>Modelled from the spec: \<^verbatim>\<open>stageTx\<close> of \<^verbatim>\<open>src/utils/runTx.js\<close> is not under
  \<^verbatim>\<open>src/\<close>. The spec gives \<open>stage(txPromise, provider) -> {success, tx | error}\<close>: the
  transaction is constructed without being broadcast.\<close>

definition stageTx :: "round \<Rightarrow> string \<Rightarrow> coerced list \<Rightarrow> event list \<times> (error + tx)" where
  "stageTx r nm args = ([Stage nm args], staged r)"

text \<open>Modelled from the spec: \<^verbatim>\<open>runTx\<close> of \<^verbatim>\<open>src/utils/runTx.js\<close> is not under
  \<^verbatim>\<open>src/\<close>. The spec gives \<open>run(tx, provider) -> {success, receipt | error}\<close>: the staged
  transaction is submitted, then its receipt is awaited; each of the two phases can fail, and
  a failure short-circuits what remains and is the failure detail of the answer.\<close>

definition runTx :: "round \<Rightarrow> tx \<Rightarrow> event list \<times> (error + receipt)" where
  "runTx r t =
     (case submitted r of
        Inl err \<Rightarrow> ([Submit t], Inl err)
      | Inr u \<Rightarrow>
          (case receipted r of
             Inl err \<Rightarrow> ([Submit t, AwaitReceipt t], Inl err)
           | Inr rc \<Rightarrow> ([Submit t, AwaitReceipt t], Inr rc)))"

text \<open>The prompts for the parameters (lines 279-319), one after the other from the
  parameter at position \<open>i\<close> on, and the arguments they give; an error thrown at one
  parameter ends the loop.\<close>

fun promptInputsFrom :: "nat \<Rightarrow> param list \<Rightarrow> round \<Rightarrow> event list \<times> (error + coerced list)" where
  "promptInputsFrom i [] r = ([], Inr [])"
| "promptInputsFrom i (input # rest) r =
     (case coerceInput input (answers r i) of
        Inl err \<Rightarrow> ([PromptInput (inputMessage input)], Inl err)
      | Inr v \<Rightarrow>
          (case promptInputsFrom (Suc i) rest r of
             (evs, Inl err) \<Rightarrow> (PromptInput (inputMessage input) # evs, Inl err)
           | (evs, Inr vs) \<Rightarrow> (PromptInput (inputMessage input) # evs, Inr (v # vs))))"

definition promptInputs :: "param list \<Rightarrow> round \<Rightarrow> event list \<times> (error + coerced list)" where
  "promptInputs ins r = promptInputsFrom 0 ins r"

text \<open>The contract binding of the \<^verbatim>\<open>ethers\<close> library (version 5) knows every function
  entry by its signature, the name with the parameter types, and carries a method under the
  bare name only when exactly one signature has that name: for an overloaded name
  \<^verbatim>\<open>contract[abiItemName]\<close> is \<^verbatim>\<open>undefined\<close>. Function names that are members of the
  binding object itself are not considered.\<close>

definition fragmentSignature :: "abi_item \<Rightarrow> string" where
  "fragmentSignature item =
     nameText item @ ''('' @
     join '','' (map param_type (case inputs item of None \<Rightarrow> [] | Some ps \<Rightarrow> ps)) @ '')''"

definition bareMethod :: "contract \<Rightarrow> string \<Rightarrow> bool" where
  "bareMethod c nm \<longleftrightarrow>
     length (remdups (map fragmentSignature
               (filter (\<lambda>item. type item = ''function'' \<and> name item = Some nm) (contract_abi c))))
       = 1"

text \<open>Lines 331-378. A declined confirmation leaves by the early return of line 351. Calling
  \<^verbatim>\<open>contract[abiItemName]\<close> when the binding has no such method throws a
  \<^verbatim>\<open>TypeError\<close>: in the read call it is caught with every other error of the call
  (lines 335-339), in line 355 nothing catches it. Every other path ends with the variables
  \<^verbatim>\<open>result\<close> and \<^verbatim>\<open>error\<close>. The failure detail of a collaborator is an error
  object, which is truthy. The gas settings of the session are taken to be well-formed, so
  that the overrides of lines 325-328 do not throw.\<close>

datatype dispatched =
    Declined "event list"
  | Faulted "event list" error
  | Completed "event list" result "error option"

definition callFunction ::
  "contract \<Rightarrow> abi_item \<Rightarrow> string \<Rightarrow> coerced list \<Rightarrow> round \<Rightarrow> dispatched" where
  "callFunction c abiItem nm args r =
     (if stateMutability abiItem = Some ''view''
      then (if \<not> bareMethod c nm then Completed [] Undefined (Some TypeError)
            else (case queried r of
                    Inr v \<Rightarrow> Completed [Query nm args] (Returned v) None
                  | Inl err \<Rightarrow> Completed [Query nm args] Undefined (Some err)))
      else if \<not> confirmation r then Declined [PromptConfirm]
      else if \<not> bareMethod c nm then Faulted [PromptConfirm] TypeError
      else (case stageTx r nm args of
              (evs1, Inl err) \<Rightarrow> Completed (PromptConfirm # evs1) Unsuccessful (Some err)
            | (evs1, Inr t) \<Rightarrow>
                (case runTx r t of
                   (evs2, Inr rc) \<Rightarrow> Completed (PromptConfirm # evs1 @ evs2) (Receipt rc) None
                 | (evs2, Inl err) \<Rightarrow>
                     Completed (PromptConfirm # evs1 @ evs2) Unsuccessful (Some err))))"

text \<open>\<^verbatim>\<open>result[i]\<close>: beyond the end of a tuple, and on a value that has no elements, the
  read gives \<^verbatim>\<open>undefined\<close>.\<close>

fun element :: "result \<Rightarrow> nat \<Rightarrow> retval option" where
  "element (Returned (Tuple vs)) i = (if i < length vs then Some (vs ! i) else None)"
| "element (Returned (Text s)) i = (if i < length s then Some (Text [s ! i]) else None)"
| "element res i = None"

fun whole :: "result \<Rightarrow> retval option" where
  "whole (Returned v) = Some v"
| "whole res = None"

text \<open>Lines 397-407: the outputs of a read call are printed with their names and types.
  Reading \<^verbatim>\<open>length\<close> of missing outputs, and reading \<^verbatim>\<open>name\<close> of the missing first
  element of empty outputs, throw a \<^verbatim>\<open>TypeError\<close>.\<close>

definition reportOutputs :: "abi_item \<Rightarrow> result \<Rightarrow> error + event list" where
  "reportOutputs abiItem res =
     (if stateMutability abiItem = Some ''view'' \<and> res \<noteq> Undefined
      then (case outputs abiItem of
              None \<Rightarrow> Inl TypeError
            | Some outs \<Rightarrow>
                if length outs > 1
                then Inr (map (\<lambda>i. PrintOutput (param_name (outs ! i)) (param_type (outs ! i))
                                      (element res i)) [0..<length outs])
                else (case outs of
                        [] \<Rightarrow> Inl TypeError
                      | output # rest \<Rightarrow>
                          Inr [PrintOutput (param_name output) (param_type output) (whole res)]))
      else Inr [])"

text \<open>Lines 392-408: the events of the report, and the error it throws if it faults.\<close>

definition report :: "abi_item \<Rightarrow> result \<Rightarrow> error option \<Rightarrow> event list \<times> error option" where
  "report abiItem res err =
     (case err of
        Some e \<Rightarrow> ([LogError e], None)
      | None \<Rightarrow>
          (case reportOutputs abiItem res of
             Inl e \<Rightarrow> ([LogReceipt res], Some e)
           | Inr evs \<Rightarrow> (LogReceipt res # evs, None)))"

text \<open>How one pass through \<^verbatim>\<open>pickFunction\<close> ends: with the call to itself (line 349 or
  line 411), with the call to \<^verbatim>\<open>pickContract\<close> of the back entry (line 268), or with an
  error thrown.\<close>

datatype next_step = Reenter | Back | Thrown error

text \<open>Lines 263-409, after the function prompt has been answered. A signature that names no
  entry leaves \<^verbatim>\<open>abiItem\<close> undefined, and an entry without inputs leaves
  \<^verbatim>\<open>abiItem.inputs\<close> undefined; reading from either throws. An error thrown while the
  parameters are prompted, or by line 355, leaves the function.\<close>

definition body :: "contract \<Rightarrow> round \<Rightarrow> event list \<times> next_step" where
  "body c r =
     (if abiItemSignature r = escItem then ([], Back)
      else (case findAbiItem (contract_abi c) (abiItemSignature r) of
              None \<Rightarrow> ([], Thrown TypeError)
            | Some abiItem \<Rightarrow>
                (case inputs abiItem of
                   None \<Rightarrow> ([], Thrown TypeError)
                 | Some ins \<Rightarrow>
                     (case promptInputs ins r of
                        (pevs, Inl e) \<Rightarrow> (pevs, Thrown e)
                      | (pevs, Inr args) \<Rightarrow>
                          (case callFunction c abiItem (abiItemName (abiItemSignature r)) args r of
                             Declined evs \<Rightarrow> (pevs @ evs, Reenter)
                           | Faulted evs e \<Rightarrow> (pevs @ evs, Thrown e)
                           | Completed evs res err \<Rightarrow>
                               (case report abiItem res err of
                                  (revs, None) \<Rightarrow> (pevs @ evs @ revs, Reenter)
                                | (revs, Some e) \<Rightarrow> (pevs @ evs @ revs, Thrown e)))))))"

section \<open>The session\<close>

text \<open>The session is driven by what the user answers: a visit is the contract name picked at
  the contract prompt and the rounds played on that contract. When the answers run out the
  session stays suspended at a prompt (it ends by an external interrupt only); an error that
  nothing catches travels up to the top-level entry point.\<close>

type_synonym visit = "string \<times> round list"

datatype ending = Suspended | Fatal error

definition prepend :: "event list \<Rightarrow> event list \<times> ending \<Rightarrow> event list \<times> ending" where
  "prepend evs p = (evs @ fst p, snd p)"

text \<open>\<^verbatim>\<open>pickContract\<close> (lines 145-416) and \<^verbatim>\<open>pickFunction\<close> (lines 200-412) call each
  other. Reading \<^verbatim>\<open>target.source\<close> of an unknown target, or \<^verbatim>\<open>source.abi\<close> of an
  unknown source, throws a \<^verbatim>\<open>TypeError\<close>; nothing in \<^verbatim>\<open>pickContract\<close> catches.\<close>

fun pickContract :: "env \<Rightarrow> visit list \<Rightarrow> event list \<times> ending"
  and pickFunction :: "env \<Rightarrow> contract \<Rightarrow> round list \<Rightarrow> visit list \<Rightarrow> event list \<times> ending"
where
  "pickContract e [] = ([PromptContract], Suspended)"
| "pickContract e ((contractName, rounds) # rest) =
     (case getTarget e contractName of
        None \<Rightarrow> ([PromptContract], Fatal TypeError)
      | Some tgt \<Rightarrow>
          (case getSource e (source tgt) of
             None \<Rightarrow> ([PromptContract, PrintTarget contractName (address tgt)], Fatal TypeError)
           | Some src \<Rightarrow>
               if bytecode src = []
               then (case getCode e (address tgt) of
                       Inl err \<Rightarrow>
                         ([PromptContract, PrintTarget contractName (address tgt)], Fatal err)
                     | Inr code \<Rightarrow>
                         prepend [PromptContract, PrintTarget contractName (address tgt),
                                  WarnNoCode (address tgt) code]
                           (pickFunction e \<lparr>contract_address = address tgt, contract_abi = abi src\<rparr>
                              rounds rest))
               else prepend [PromptContract, PrintTarget contractName (address tgt)]
                      (pickFunction e \<lparr>contract_address = address tgt, contract_abi = abi src\<rparr>
                         rounds rest)))"
| "pickFunction e c [] rest = ([PromptFunction], Suspended)"
| "pickFunction e c (r # rs) rest =
     (case body c r of
        (evs, Reenter) \<Rightarrow> prepend (PromptFunction # evs) (pickFunction e c rs rest)
      | (evs, Back) \<Rightarrow> prepend (PromptFunction # evs) (pickContract e rest)
      | (evs, Thrown err) \<Rightarrow> (PromptFunction # evs, Fatal err))"

text \<open>The top-level action (lines 432-441): an error that reaches it is printed and the exit
  code is set to 1.\<close>

definition action :: "env \<Rightarrow> visit list \<Rightarrow> event list \<times> nat option" where
  "action e script =
     (case pickContract e script of
        (evs, Fatal err) \<Rightarrow> (evs @ [PrintFatal err], Some 1)
      | (evs, Suspended) \<Rightarrow> (evs, None))"

section \<open>Observing a run\<close>

text \<open>The calls to the outside world among the events: the read call and the three phases
  of a transaction.\<close>

fun isAttempt :: "event \<Rightarrow> bool" where
  "isAttempt (Query nm args) = True"
| "isAttempt (Stage nm args) = True"
| "isAttempt (Submit t) = True"
| "isAttempt (AwaitReceipt t) = True"
| "isAttempt ev = False"

definition attempts :: "event list \<Rightarrow> event list" where
  "attempts evs = filter isAttempt evs"

text \<open>What was handed to \<^verbatim>\<open>logError\<close> and to \<^verbatim>\<open>logReceipt\<close>, in order.\<close>

fun errorsLogged :: "event list \<Rightarrow> error list" where
  "errorsLogged [] = []"
| "errorsLogged (LogError err # evs) = err # errorsLogged evs"
| "errorsLogged (ev # evs) = errorsLogged evs"

fun receiptsLogged :: "event list \<Rightarrow> result list" where
  "receiptsLogged [] = []"
| "receiptsLogged (LogReceipt res # evs) = res # receiptsLogged evs"
| "receiptsLogged (ev # evs) = receiptsLogged evs"

section \<open>The words of the specification\<close>

text \<open>Two characters are the same letter up to case when they are equal or one is an
  upper-case letter and the other its lower-case form, 32 codes further.\<close>

definition same_letter :: "char \<Rightarrow> char \<Rightarrow> bool" where
  "same_letter a b \<longleftrightarrow>
     a = b \<or>
     (65 \<le> (of_char a :: nat) \<and> (of_char a :: nat) \<le> 90 \<and> (of_char b :: nat) = of_char a + 32) \<or>
     (65 \<le> (of_char b :: nat) \<and> (of_char b :: nat) \<le> 90 \<and> (of_char a :: nat) = of_char b + 32)"

text \<open>A name contains the query as a case-insensitive substring: some contiguous part of
  the name is the query letter by letter, up to case.\<close>

definition contains_ci :: "string \<Rightarrow> string \<Rightarrow> bool" where
  "contains_ci s q \<longleftrightarrow> (\<exists>ps w ss. s = ps @ w @ ss \<and> list_all2 same_letter w q)"

text \<open>The failure detail of a call that is made: the error of the read call, or of the first
  phase of the transaction that fails; \<open>None\<close> when nothing fails.\<close>

definition failureDetail :: "contract \<Rightarrow> abi_item \<Rightarrow> string \<Rightarrow> round \<Rightarrow> error option" where
  "failureDetail c abiItem nm r =
     (if stateMutability abiItem = Some ''view''
      then (if \<not> bareMethod c nm then Some TypeError
            else (case queried r of Inl x \<Rightarrow> Some x | Inr v \<Rightarrow> None))
      else (case staged r of
              Inl x \<Rightarrow> Some x
            | Inr t \<Rightarrow>
                (case submitted r of
                   Inl x \<Rightarrow> Some x
                 | Inr u \<Rightarrow> (case receipted r of Inl x \<Rightarrow> Some x | Inr rc \<Rightarrow> None))))"

section \<open>An example deployment\<close>

definition transferEvent :: abi_item where
  "transferEvent =
     \<lparr>name = Some ''Transfer'', type = ''event'',
      inputs = Some [\<lparr>param_name = ''from'', param_type = ''address''\<rparr>,
                     \<lparr>param_name = ''to'', param_type = ''address''\<rparr>,
                     \<lparr>param_name = ''value'', param_type = ''uint256''\<rparr>],
      outputs = None, stateMutability = None\<rparr>"

definition transferFromInputs :: "param list" where
  "transferFromInputs =
     [\<lparr>param_name = ''from'', param_type = ''address''\<rparr>,
      \<lparr>param_name = ''to'', param_type = ''address''\<rparr>,
      \<lparr>param_name = ''value'', param_type = ''uint256''\<rparr>]"

definition transferFrom :: abi_item where
  "transferFrom =
     \<lparr>name = Some ''transferFrom'', type = ''function'',
      inputs = Some transferFromInputs,
      outputs = Some [\<lparr>param_name = [], param_type = ''bool''\<rparr>],
      stateMutability = Some ''nonpayable''\<rparr>"

definition transferTo :: abi_item where
  "transferTo =
     \<lparr>name = Some ''transfer'', type = ''function'',
      inputs = Some [\<lparr>param_name = ''to'', param_type = ''address''\<rparr>],
      outputs = Some [],
      stateMutability = Some ''nonpayable''\<rparr>"

definition transferToValue :: abi_item where
  "transferToValue =
     \<lparr>name = Some ''transfer'', type = ''function'',
      inputs = Some [\<lparr>param_name = ''to'', param_type = ''address''\<rparr>,
                     \<lparr>param_name = ''value'', param_type = ''uint256''\<rparr>],
      outputs = Some [\<lparr>param_name = [], param_type = ''bool''\<rparr>],
      stateMutability = Some ''nonpayable''\<rparr>"

definition requireSystemActive :: abi_item where
  "requireSystemActive =
     \<lparr>name = Some ''requireSystemActive'', type = ''function'',
      inputs = Some [], outputs = Some [], stateMutability = Some ''view''\<rparr>"

definition balanceOf :: abi_item where
  "balanceOf =
     \<lparr>name = Some ''balanceOf'', type = ''function'',
      inputs = Some [\<lparr>param_name = ''account'', param_type = ''address''\<rparr>],
      outputs = Some [\<lparr>param_name = [], param_type = ''uint256''\<rparr>],
      stateMutability = Some ''view''\<rparr>"

definition tokenAbi :: "abi_item list" where
  "tokenAbi = [transferEvent, transferFrom, transferTo, transferToValue, balanceOf]"

definition token :: contract where
  "token = \<lparr>contract_address = ''0xC011'', contract_abi = tokenAbi\<rparr>"

definition systemStatus :: contract where
  "systemStatus = \<lparr>contract_address = ''0x1c86'', contract_abi = [requireSystemActive]\<rparr>"

text \<open>A deployment that knows the contract \<open>SystemStatus\<close> only.\<close>

definition statusOnly :: env where
  "statusOnly =
     \<lparr>targetNames = [''SystemStatus''],
      getTarget = (\<lambda>n. if n = ''SystemStatus''
                         then Some \<lparr>address = ''0x1c86'', source = ''SystemStatus''\<rparr> else None),
      getSource = (\<lambda>n. if n = ''SystemStatus''
                         then Some \<lparr>abi = [requireSystemActive], bytecode = ''0x6080''\<rparr> else None),
      getCode = (\<lambda>a. Inr ''0x6080'')\<rparr>"

text \<open>A round in which nothing is picked yet; the examples fill it in.\<close>

definition idle :: round where
  "idle =
     \<lparr>abiItemSignature = [], answers = (\<lambda>i. []), confirmation = False,
      queried = Inl (Failure ''call exception''), staged = Inl (Failure ''cannot estimate gas''),
      submitted = Inl (Failure ''nonce too low''), receipted = Inl (Failure ''transaction failed'')\<rparr>"

text \<open>The user picks \<open>transferFrom\<close>, confirms, the staging gives a transaction and the
  submission is rejected.\<close>

definition rejectedSubmission :: round where
  "rejectedSubmission =
     idle\<lparr>abiItemSignature :=
            ''transferFrom(address from, address to, uint256 value) returns(bool)'',
          answers := (\<lambda>i. ''0xabc''), confirmation := True, staged := Inr ''0xhash''\<rparr>"

text \<open>The same pick, with every phase going through.\<close>

definition minedTransfer :: round where
  "minedTransfer =
     rejectedSubmission\<lparr>submitted := Inr (), receipted := Inr ''receipt of 0xhash''\<rparr>"

text \<open>The user picks \<open>transfer(address to)\<close> and declines at \<open>Send transaction?\<close>.\<close>

definition declinedTransfer :: round where
  "declinedTransfer =
     idle\<lparr>abiItemSignature := ''transfer(address to)'', answers := (\<lambda>i. ''0xabc''),
          staged := Inr ''0xhash''\<rparr>"

text \<open>A read call that returns a balance.\<close>

definition balanceQuery :: round where
  "balanceQuery =
     idle\<lparr>abiItemSignature := ''balanceOf(address account) view returns(uint256)'',
          answers := (\<lambda>i. ''0xabc''), queried := Inr (BigNumber 5)\<rparr>"

text \<open>A read call of \<open>requireSystemActive\<close>, which returns nothing: the binding resolves
  to the empty tuple.\<close>

definition statusQuery :: round where
  "statusQuery =
     idle\<lparr>abiItemSignature := ''requireSystemActive() view'', queried := Inr (Tuple [])\<rparr>"

text \<open>The user picks the second overload of \<open>transfer\<close> by its signature and confirms.\<close>

definition overloadPick :: round where
  "overloadPick =
     idle\<lparr>abiItemSignature := reduceSignature transferToValue, answers := (\<lambda>i. ''0xabc''),
          confirmation := True, staged := Inr ''0xhash''\<rparr>"

text \<open>An ABI in which an event comes before the function of the same name, and a round in
  which the user picks the function, confirms, and the transaction goes through.\<close>

definition issuedEvent :: abi_item where
  "issuedEvent =
     \<lparr>name = Some ''issue'', type = ''event'',
      inputs = Some [\<lparr>param_name = ''account'', param_type = ''address''\<rparr>,
                     \<lparr>param_name = ''value'', param_type = ''uint256''\<rparr>],
      outputs = None, stateMutability = None\<rparr>"

definition issueFunction :: abi_item where
  "issueFunction =
     \<lparr>name = Some ''issue'', type = ''function'',
      inputs = Some [\<lparr>param_name = ''to'', param_type = ''address''\<rparr>,
                     \<lparr>param_name = ''amount'', param_type = ''uint256''\<rparr>],
      outputs = Some [], stateMutability = Some ''nonpayable''\<rparr>"

definition issuer :: contract where
  "issuer = \<lparr>contract_address = ''0x611A'', contract_abi = [issuedEvent, issueFunction]\<rparr>"

definition issuePick :: round where
  "issuePick =
     idle\<lparr>abiItemSignature := reduceSignature issueFunction, answers := (\<lambda>i. ''7''),
          confirmation := True, staged := Inr ''0xhash'', submitted := Inr (),
          receipted := Inr ''receipt of 0xhash''\<rparr>"

section \<open>Arrays: finding, cutting, splitting\<close>

lemma indexOf_absent: "x \<notin> set xs \<Longrightarrow> indexOf xs x = - 1"
  by (induction xs) (auto simp: Let_def)

lemma splice_last: "splice xs (- 1) (Suc 0) = butlast xs"
proof (cases xs rule: rev_cases)
  case Nil
  then show ?thesis by (simp add: splice_def)
next
  case (snoc ys y)
  then show ?thesis by (simp add: splice_def Let_def)
qed

lemma prioritizeTarget_absent:
  "itemName \<notin> set targets \<Longrightarrow> prioritizeTarget targets itemName = itemName # butlast targets"
  by (simp add: prioritizeTarget_def unshift_def indexOf_absent splice_last)

lemma str_includes_empty: "str_includes s []"
  by (induction s) auto

lemma searchTargets_empty_query: "searchTargets targets [] = targets"
  by (simp add: searchTargets_def toLowerCase_def str_includes_empty)

lemma str_split_no_sep: "sep \<notin> set a \<Longrightarrow> str_split sep a = [a]"
  by (induction a) auto

lemma str_split_piece: "sep \<notin> set a \<Longrightarrow> str_split sep (a @ sep # rest) = a # str_split sep rest"
  by (induction a) (auto split: list.splits)

lemma str_split_head: "\<exists>ps. str_split sep s = takeWhile (\<lambda>c. c \<noteq> sep) s # ps"
  by (induction s) (auto split: list.splits)

section \<open>The pinned contract\<close>

text \<open>C7: whatever the keys of the deployment's targets and whatever their order, after the
  pinning step the name \<open>Synthetix\<close> is at position 0 of the navigator's list, and so at
  position 0 of what the navigator presents for the empty query.\<close>

theorem pinned_name_first:
  "pinnedTargets keys \<noteq> [] \<and>
   pinnedTargets keys ! 0 = ''Synthetix'' \<and>
   searchTargets (pinnedTargets keys) [] ! 0 = ''Synthetix''"
  by (simp add: searchTargets_empty_query pinnedTargets_def prioritizeTarget_def unshift_def)

theorem pinned_name_first_witness:
  "pinnedTargets [''Issuer'', ''Synthetix'', ''SystemStatus''] ! 0 = ''Synthetix'' \<and>
   pinnedTargets [''Issuer'', ''Synthetix'', ''SystemStatus''] =
     [''Synthetix'', ''Issuer'', ''SystemStatus'']"
  using pinned_name_first [of "[''Issuer'', ''Synthetix'', ''SystemStatus'']"]
  by (simp add: pinnedTargets_def prioritizeTarget_def unshift_def splice_def)

text \<open>C8, as the claim states it, fails on the empty list of keys: \<open>splice\<close> at index
  \<open>-1\<close> of an empty array deletes nothing, so no name is lost and the list grows by
  one.\<close>

theorem pinning_empty_keys_loses_nothing:
  "''Synthetix'' \<notin> set ([] :: string list) \<and>
   pinnedTargets [] = [''Synthetix''] \<and>
   length (pinnedTargets []) = length ([] :: string list) + 1"
  by (simp add: pinnedTargets_def prioritizeTarget_def unshift_def splice_def)

text \<open>C8, amended: for every non-empty list of keys that does not contain \<open>Synthetix\<close>,
  the pinning step removes the last key before it prepends \<open>Synthetix\<close>: the list keeps
  its length, and (the keys of an object being distinct) the last key is no longer in it.\<close>

theorem pinning_absent_name_drops_last:
  assumes "''Synthetix'' \<notin> set keys" and "keys \<noteq> []"
  shows "pinnedTargets keys = ''Synthetix'' # butlast keys \<and>
         length (pinnedTargets keys) = length keys \<and>
         (distinct keys \<longrightarrow> last keys \<notin> set (pinnedTargets keys))"
proof -
  have eq: "pinnedTargets keys = ''Synthetix'' # butlast keys"
    using assms(1) by (simp add: pinnedTargets_def prioritizeTarget_absent)
  have len: "length (pinnedTargets keys) = length keys"
    using assms(2) by (simp add: eq)
  have gone: "last keys \<notin> set (pinnedTargets keys)" if "distinct keys"
  proof -
    have "keys = butlast keys @ [last keys]"
      using assms(2) by simp
    then have "distinct (butlast keys @ [last keys])"
      using that by simp
    then have "last keys \<notin> set (butlast keys)"
      by simp
    moreover have "last keys \<noteq> ''Synthetix''"
      using assms by (metis last_in_set)
    ultimately show ?thesis
      by (simp add: eq)
  qed
  show ?thesis
    using eq len gone by blast
qed

theorem pinning_absent_name_drops_last_witness:
  "pinnedTargets [''Issuer'', ''SystemStatus''] = [''Synthetix'', ''Issuer''] \<and>
   ''SystemStatus'' \<notin> set (pinnedTargets [''Issuer'', ''SystemStatus''])"
proof -
  have a: "''Synthetix'' \<notin> set [''Issuer'', ''SystemStatus'']"
    by simp
  have b: "[''Issuer'', ''SystemStatus''] \<noteq> []"
    by simp
  have d: "distinct [''Issuer'', ''SystemStatus'']"
    by simp
  show ?thesis
    using pinning_absent_name_drops_last [OF a b] d by simp
qed

section \<open>Searching by substring\<close>

lemma of_char_inj: "(of_char a :: nat) = of_char b \<Longrightarrow> a = b"
  by (metis char_of_char)

lemma of_char_toLowerChar:
  "(of_char (toLowerChar a) :: nat) =
     (if 65 \<le> (of_char a :: nat) \<and> (of_char a :: nat) \<le> 90 then of_char a + 32 else of_char a)"
  by (simp add: toLowerChar_def of_char_of)

lemma same_letter_iff: "same_letter a b \<longleftrightarrow> toLowerChar a = toLowerChar b"
proof -
  have "toLowerChar a = toLowerChar b \<longleftrightarrow>
          (of_char (toLowerChar a) :: nat) = of_char (toLowerChar b)"
    using of_char_inj by auto
  also have "\<dots> \<longleftrightarrow> same_letter a b"
    unfolding same_letter_def of_char_toLowerChar
    by (auto dest: of_char_inj)
  finally show ?thesis
    by simp
qed

lemma map_eq_iff_list_all2: "map f w = map f q \<longleftrightarrow> list_all2 (\<lambda>a b. f a = f b) w q"
proof (induction w arbitrary: q)
  case Nil
  then show ?case
    by simp
next
  case (Cons a w)
  then show ?case
    by (cases q) auto
qed

lemma toLowerCase_eq_iff: "toLowerCase w = toLowerCase q \<longleftrightarrow> list_all2 same_letter w q"
proof -
  have "same_letter = (\<lambda>a b. toLowerChar a = toLowerChar b)"
    by (intro ext) (simp add: same_letter_iff)
  then show ?thesis
    by (simp add: toLowerCase_def map_eq_iff_list_all2)
qed

lemma str_includes_sublist: "str_includes s q \<longleftrightarrow> sublist q s"
  by (induction s) (auto simp: sublist_Cons_right)

lemma includes_lower_iff: "str_includes (toLowerCase s) (toLowerCase q) \<longleftrightarrow> contains_ci s q"
proof
  assume "str_includes (toLowerCase s) (toLowerCase q)"
  then obtain ps ss where "map toLowerChar s = ps @ map toLowerChar q @ ss"
    by (auto simp: str_includes_sublist sublist_def toLowerCase_def)
  from map_eq_append_conv [THEN iffD1, OF this]
  obtain us rs where 1: "s = us @ rs" "map toLowerChar q @ ss = map toLowerChar rs"
    by blast
  from map_eq_append_conv [THEN iffD1, OF 1(2) [symmetric]]
  obtain w vs where 2: "rs = w @ vs" "map toLowerChar q = map toLowerChar w"
    by blast
  from 1 2 have "s = us @ w @ vs" "map toLowerChar w = map toLowerChar q"
    by simp_all
  then show "contains_ci s q"
    using toLowerCase_eq_iff [of w q] by (auto simp: contains_ci_def toLowerCase_def)
next
  assume "contains_ci s q"
  then obtain us w vs where s: "s = us @ w @ vs" and "list_all2 same_letter w q"
    by (auto simp: contains_ci_def)
  then have "toLowerCase w = toLowerCase q"
    by (simp add: toLowerCase_eq_iff)
  then have "toLowerCase s = toLowerCase us @ toLowerCase q @ toLowerCase vs"
    by (simp add: s toLowerCase_def)
  then show "str_includes (toLowerCase s) (toLowerCase q)"
    unfolding str_includes_sublist sublist_def by blast
qed

lemma abiFilter_spec:
  "abiFilter items query =
     filter (\<lambda>item. type item = ''function'' \<and>
                     (\<exists>n. name item = Some n \<and> n \<noteq> [] \<and> contains_ci n query)) items"
  unfolding abiFilter_def
  by (rule filter_cong) (auto simp: includes_lower_iff split: option.splits)

section \<open>Sorting by a key\<close>

lemma mset_insert_by: "mset (insert_by cmp x xs) = add_mset x (mset xs)"
  by (induction xs) auto

lemma mset_sort_by: "mset (sort_by cmp xs) = mset xs"
  by (induction xs) (auto simp: mset_insert_by)

lemma set_insert_by: "set (insert_by cmp x xs) = insert x (set xs)"
  by (induction xs) auto

lemma sorted_insert_by:
  "sorted (map k xs) \<Longrightarrow> sorted (map k (insert_by (\<lambda>a b. int (k a) - int (k b)) x xs))"
  by (induction xs) (auto simp: set_insert_by)

lemma sorted_sort_by: "sorted (map k (sort_by (\<lambda>a b. int (k a) - int (k b)) xs))"
  by (induction xs) (auto simp: sorted_insert_by)

lemma filter_insert_by:
  "filter (\<lambda>y. k y = v) (insert_by (\<lambda>a b. int (k a) - int (k b)) x xs) =
     (if k x = v then x # filter (\<lambda>y. k y = v) xs else filter (\<lambda>y. k y = v) xs)"
  by (induction xs) auto

lemma filter_sort_by:
  "filter (\<lambda>y. k y = v) (sort_by (\<lambda>a b. int (k a) - int (k b)) xs) = filter (\<lambda>y. k y = v) xs"
  by (induction xs) (auto simp: filter_insert_by)

section \<open>What the two searches keep, and in which order\<close>

text \<open>C6: for every non-empty query, the navigator's search keeps exactly the contract names
  that contain the query as a case-insensitive substring, in their order; and the signatures
  the selector's search gives are those of exactly the ABI entries that are of type
  \<open>function\<close>, have a name, and whose name contains the query as a case-insensitive
  substring, each as often as it is in the ABI.\<close>

theorem searches_keep_exactly_the_matches:
  assumes "query \<noteq> []"
  shows "searchTargets targets query = filter (\<lambda>target. contains_ci target query) targets \<and>
         searchAbi items query = map reduceSignature (abiMatches items query) \<and>
         mset (abiMatches items query) =
           mset (filter (\<lambda>item. type item = ''function'' \<and>
                                 (\<exists>n. name item = Some n \<and> n \<noteq> [] \<and> contains_ci n query))
                   items)"
  using assms
  by (simp add: searchTargets_def includes_lower_iff searchAbi_def abiMatches_def mset_sort_by
      abiFilter_spec)

lemma example_search_targets:
  "searchTargets [''Synthetix'', ''Issuer'', ''SystemStatus''] ''ER'' = [''Issuer'']"
  by code_simp

lemma example_matches_upper_case_query:
  "abiMatches tokenAbi ''ER'' = [transferTo, transferToValue, transferFrom]"
  by code_simp

theorem searches_keep_exactly_the_matches_witness:
  "''ER'' \<noteq> [] \<and>
   filter (\<lambda>target. contains_ci target ''ER'') [''Synthetix'', ''Issuer'', ''SystemStatus''] =
     [''Issuer''] \<and>
   mset (filter (\<lambda>item. type item = ''function'' \<and>
                         (\<exists>n. name item = Some n \<and> n \<noteq> [] \<and> contains_ci n ''ER''))
           tokenAbi) =
     mset [transferTo, transferToValue, transferFrom]"
proof -
  have q: "''ER'' \<noteq> []"
    by simp
  show ?thesis
    using searches_keep_exactly_the_matches
            [OF q, of "[''Synthetix'', ''Issuer'', ''SystemStatus'']" tokenAbi]
          example_search_targets example_matches_upper_case_query
    by simp
qed

text \<open>C5: for every query, the matches of the selector are in ascending order of the edit
  distance between their name and the query (every adjacent pair is in order), matches at the
  same distance are in the order the filter left them in, which is their order in the ABI,
  and the signatures presented are those of the matches in that order, after the back entry
  when the query is empty.\<close>

theorem matches_ranked_by_distance:
  "(\<forall>i. Suc i < length (abiMatches items query) \<longrightarrow>
        levenshtein (nameText (abiMatches items query ! i)) query
          \<le> levenshtein (nameText (abiMatches items query ! Suc i)) query) \<and>
   (\<forall>d. filter (\<lambda>m. levenshtein (nameText m) query = d) (abiMatches items query) =
        filter (\<lambda>m. levenshtein (nameText m) query = d) (abiFilter items query)) \<and>
   subseq (abiFilter items query) items \<and>
   (\<forall>m \<in> set (abiMatches items query). name m = Some (nameText m)) \<and>
   searchAbi items query =
     (if query = [] then [escItem] else []) @ map reduceSignature (abiMatches items query)"
proof -
  let ?ms = "abiMatches items query"
  have "sorted (map (proximity query) ?ms)"
    unfolding abiMatches_def by (rule sorted_sort_by)
  then have asc: "\<forall>i. Suc i < length ?ms \<longrightarrow>
        levenshtein (nameText (?ms ! i)) query \<le> levenshtein (nameText (?ms ! Suc i)) query"
    by (auto simp: sorted_iff_nth_Suc proximity_def)
  have stable: "\<forall>d. filter (\<lambda>m. levenshtein (nameText m) query = d) ?ms =
        filter (\<lambda>m. levenshtein (nameText m) query = d) (abiFilter items query)"
    using filter_sort_by [of "proximity query" _ "abiFilter items query"]
    by (simp add: abiMatches_def proximity_def)
  have sub: "subseq (abiFilter items query) items"
    by (simp add: abiFilter_def)
  have "set ?ms = set (abiFilter items query)"
    unfolding abiMatches_def by (metis mset_sort_by set_mset_mset)
  then have named: "\<forall>m \<in> set ?ms. name m = Some (nameText m)"
    by (auto simp: abiFilter_def nameText_def split: option.splits)
  have sigs: "searchAbi items query =
     (if query = [] then [escItem] else []) @ map reduceSignature ?ms"
    by (simp add: searchAbi_def)
  show ?thesis
    using asc stable sub named sigs by blast
qed

lemma example_ranking: "abiMatches tokenAbi ''transfer'' = [transferTo, transferToValue, transferFrom]"
  by code_simp

lemma example_filtered: "abiFilter tokenAbi ''transfer'' = [transferFrom, transferTo, transferToValue]"
  by code_simp

lemma example_distances:
  "map (\<lambda>m. levenshtein (nameText m) ''transfer'') [transferTo, transferToValue, transferFrom] =
     [0, 0, 4]"
  by code_simp

theorem matches_ranked_by_distance_witness:
  "Suc 1 < length (abiMatches tokenAbi ''transfer'') \<and>
   levenshtein (nameText (abiMatches tokenAbi ''transfer'' ! 1)) ''transfer''
     \<le> levenshtein (nameText (abiMatches tokenAbi ''transfer'' ! Suc 1)) ''transfer'' \<and>
   abiFilter tokenAbi ''transfer'' = [transferFrom, transferTo, transferToValue] \<and>
   abiMatches tokenAbi ''transfer'' = [transferTo, transferToValue, transferFrom] \<and>
   map (\<lambda>m. levenshtein (nameText m) ''transfer'') (abiMatches tokenAbi ''transfer'') = [0, 0, 4] \<and>
   transferTo \<in> set (abiMatches tokenAbi ''transfer'') \<and>
   name transferTo = Some (nameText transferTo)"
proof -
  have len: "Suc 1 < length (abiMatches tokenAbi ''transfer'')"
    by (simp add: example_ranking)
  have mem: "transferTo \<in> set (abiMatches tokenAbi ''transfer'')"
    by (simp add: example_ranking)
  have dist: "map (\<lambda>m. levenshtein (nameText m) ''transfer'') (abiMatches tokenAbi ''transfer'') =
      [0, 0, 4]"
    using example_distances by (simp add: example_ranking)
  show ?thesis
    using matches_ranked_by_distance [of tokenAbi "''transfer''"] len mem dist example_ranking
      example_filtered
    by blast
qed

section \<open>Input coercion\<close>

lemma bracketGroup_includes: "str_includes ty ''[]'' \<Longrightarrow> bracketGroup ty"
proof (induction ty)
  case Nil
  then show ?case by simp
next
  case (Cons c cs)
  then show ?case by (cases cs) (auto simp: prefix_Cons)
qed

lemma deepPath_array_type: "str_includes ty ''[]'' \<Longrightarrow> deepPath ty"
  by (simp add: deepPath_def bracketGroup_includes)

lemma unnamed_array_parameter_throws:
  assumes "param_name input = []" and "str_includes (param_type input) ''[]''"
  shows "coerceInput input typed = Inl TypeError"
  using assms deepPath_array_type [OF assms(2)]
  by (simp add: coerceInput_def processInput_def answerRead_def promptName_def)

text \<open>C4, as the claim states it, fails for an array of words of fixed size: the type
  \<open>bytes32[3]\<close> does not contain the marker \<open>[]\<close>, and the text \<open>a,b,c\<close> is converted
  whole, as one word. It also fails for a parameter without a name: the prompt is named by
  the type \<open>bytes32[]\<close>, the typed text is not found under that name, and the split throws.\<close>

theorem fixed_size_array_coerced_as_one_word:
  "str_includes ''bytes32[3]'' ''bytes32'' \<and>
   coerceInput \<lparr>param_name = ''keys'', param_type = ''bytes32[3]''\<rparr> ''a,b,c'' =
     Inr (Single (toBytes32 ''a,b,c'')) \<and>
   coerceInput \<lparr>param_name = [], param_type = ''bytes32[]''\<rparr> ''a,b,c'' = Inl TypeError"
  by (simp add: coerceInput_def processInput_def answerRead_def promptName_def deepPath_def)

text \<open>C4, amended: for a parameter that is prompted under a name that is a single key (its
  own name, an identifier) and whose declared type contains \<open>bytes32\<close>: when the type also
  contains the array marker \<open>[]\<close>, the raw text of three comma-free pieces joined by
  commas, such as \<open>a,b,c\<close>, is coerced to the sequence of three elements that holds the
  word of each piece, in the order of the pieces (split on commas first, then every piece
  converted); when the type does not contain the marker, as for the fixed-size
  \<open>bytes32[3]\<close>, the whole text is converted as one word.\<close>

theorem array_of_words_coercion:
  assumes "\<not> deepPath (promptName input)"
    and "str_includes (param_type input) ''bytes32''"
    and "CHR '','' \<notin> set a" and "CHR '','' \<notin> set b" and "CHR '','' \<notin> set c"
  shows "(str_includes (param_type input) ''[]'' \<longrightarrow>
            coerceInput input (a @ '','' @ b @ '','' @ c) =
              Inr (Sequence [toBytes32 a, toBytes32 b, toBytes32 c])) \<and>
         (\<not> str_includes (param_type input) ''[]'' \<longrightarrow>
            coerceInput input (a @ '','' @ b @ '','' @ c) =
              Inr (Single (toBytes32 (a @ '','' @ b @ '','' @ c))))"
  using assms
  by (simp add: coerceInput_def processInput_def answerRead_def promptName_def
      str_split_piece str_split_no_sep)

theorem array_of_words_coercion_witness:
  "coerceInput \<lparr>param_name = ''keys'', param_type = ''bytes32[]''\<rparr> ''a,b,c'' =
     Inr (Sequence [toBytes32 ''a'', toBytes32 ''b'', toBytes32 ''c'']) \<and>
   coerceInput \<lparr>param_name = ''keys'', param_type = ''bytes32[3]''\<rparr> ''a,b,c'' =
     Inr (Single (toBytes32 ''a,b,c''))"
proof -
  let ?p = "\<lparr>param_name = ''keys'', param_type = ''bytes32[]''\<rparr>"
  let ?q = "\<lparr>param_name = ''keys'', param_type = ''bytes32[3]''\<rparr>"
  have p: "\<not> deepPath (promptName ?p)" "str_includes (param_type ?p) ''bytes32''"
    "str_includes (param_type ?p) ''[]''"
    by (simp_all add: deepPath_def promptName_def)
  have q: "\<not> deepPath (promptName ?q)" "str_includes (param_type ?q) ''bytes32''"
    "\<not> str_includes (param_type ?q) ''[]''"
    by (simp_all add: deepPath_def promptName_def)
  have c: "CHR '','' \<notin> set ''a''" "CHR '','' \<notin> set ''b''" "CHR '','' \<notin> set ''c''"
    by simp_all
  show ?thesis
    using array_of_words_coercion [OF p(1,2) c] array_of_words_coercion [OF q(1,2) c] p(3) q(3)
    by simp
qed

section \<open>One pass of the Call Driver\<close>

lemma attempts_Nil: "attempts [] = []"
  by (simp add: attempts_def)

lemma attempts_Cons:
  "attempts (ev # evs) = (if isAttempt ev then ev # attempts evs else attempts evs)"
  by (simp add: attempts_def)

lemma attempts_append: "attempts (xs @ ys) = attempts xs @ attempts ys"
  by (simp add: attempts_def)

lemma errorsLogged_append: "errorsLogged (xs @ ys) = errorsLogged xs @ errorsLogged ys"
  by (induction xs rule: errorsLogged.induct) auto

lemma receiptsLogged_append: "receiptsLogged (xs @ ys) = receiptsLogged xs @ receiptsLogged ys"
  by (induction xs rule: receiptsLogged.induct) auto

lemma promptInputsFrom_quiet:
  "attempts (fst (promptInputsFrom i ins r)) = [] \<and>
   errorsLogged (fst (promptInputsFrom i ins r)) = [] \<and>
   receiptsLogged (fst (promptInputsFrom i ins r)) = []"
proof (induction ins arbitrary: i)
  case Nil
  then show ?case
    by (simp add: attempts_Nil)
next
  case (Cons a ins)
  obtain evs res where p: "promptInputsFrom (Suc i) ins r = (evs, res)"
    by (cases "promptInputsFrom (Suc i) ins r")
  with Cons.IH [of "Suc i"]
  have q: "attempts evs = [] \<and> errorsLogged evs = [] \<and> receiptsLogged evs = []"
    by simp
  show ?case
    using p q by (auto simp: attempts_Nil attempts_Cons split: sum.splits)
qed

lemma promptInputs_quiet:
  "attempts (fst (promptInputs ins r)) = []"
  "errorsLogged (fst (promptInputs ins r)) = []"
  "receiptsLogged (fst (promptInputs ins r)) = []"
  using promptInputsFrom_quiet [of 0 ins r] by (simp_all add: promptInputs_def)

lemma promptInputsFrom_events:
  "snd (promptInputsFrom i ins r) = Inr args \<Longrightarrow>
     fst (promptInputsFrom i ins r) = map (\<lambda>input. PromptInput (inputMessage input)) ins"
proof (induction ins arbitrary: i args)
  case Nil
  then show ?case
    by simp
next
  case (Cons a ins)
  obtain evs res where p: "promptInputsFrom (Suc i) ins r = (evs, res)"
    by (cases "promptInputsFrom (Suc i) ins r")
  from Cons.prems p obtain vs where "res = Inr vs"
    by (auto split: sum.splits)
  with Cons.IH [of "Suc i" vs] p
  have "evs = map (\<lambda>input. PromptInput (inputMessage input)) ins"
    by simp
  then show ?case
    using Cons.prems p by (auto split: sum.splits)
qed

lemma promptInputs_events:
  "snd (promptInputs ins r) = Inr args \<Longrightarrow>
     fst (promptInputs ins r) = map (\<lambda>input. PromptInput (inputMessage input)) ins"
  by (simp add: promptInputs_def promptInputsFrom_events)

lemma body_found:
  assumes "abiItemSignature r \<noteq> escItem"
    and "findAbiItem (contract_abi c) (abiItemSignature r) = Some abiItem"
    and "inputs abiItem = Some ins"
    and "snd (promptInputs ins r) = Inr args"
  shows "body c r =
     (case callFunction c abiItem (abiItemName (abiItemSignature r)) args r of
        Declined evs \<Rightarrow> (fst (promptInputs ins r) @ evs, Reenter)
      | Faulted evs e \<Rightarrow> (fst (promptInputs ins r) @ evs, Thrown e)
      | Completed evs res err \<Rightarrow>
          (case report abiItem res err of
             (revs, None) \<Rightarrow> (fst (promptInputs ins r) @ evs @ revs, Reenter)
           | (revs, Some e) \<Rightarrow> (fst (promptInputs ins r) @ evs @ revs, Thrown e)))"
  using assms
  by (cases "promptInputs ins r")
    (simp add: body_def split: dispatched.splits prod.splits option.splits)

lemma callFunction_confirmed:
  assumes "stateMutability abiItem \<noteq> Some ''view''" and "confirmation r" and "bareMethod c nm"
  shows "callFunction c abiItem nm args r =
     (case staged r of
        Inl err \<Rightarrow> Completed [PromptConfirm, Stage nm args] Unsuccessful (Some err)
      | Inr t \<Rightarrow>
          (case submitted r of
             Inl err \<Rightarrow> Completed [PromptConfirm, Stage nm args, Submit t] Unsuccessful (Some err)
           | Inr u \<Rightarrow>
               (case receipted r of
                  Inl err \<Rightarrow>
                    Completed [PromptConfirm, Stage nm args, Submit t, AwaitReceipt t]
                      Unsuccessful (Some err)
                | Inr rc \<Rightarrow>
                    Completed [PromptConfirm, Stage nm args, Submit t, AwaitReceipt t]
                      (Receipt rc) None)))"
  using assms by (simp add: callFunction_def stageTx_def runTx_def split: sum.splits)

lemma callFunction_no_method:
  assumes "stateMutability abiItem \<noteq> Some ''view''" and "confirmation r" and "\<not> bareMethod c nm"
  shows "callFunction c abiItem nm args r = Faulted [PromptConfirm] TypeError"
  using assms by (simp add: callFunction_def)

lemma callFunction_view:
  assumes "stateMutability abiItem = Some ''view''"
  shows "callFunction c abiItem nm args r =
     (if \<not> bareMethod c nm then Completed [] Undefined (Some TypeError)
      else (case queried r of
              Inr v \<Rightarrow> Completed [Query nm args] (Returned v) None
            | Inl err \<Rightarrow> Completed [Query nm args] Undefined (Some err)))"
  using assms by (simp add: callFunction_def)

lemma report_error: "report abiItem res (Some err) = ([LogError err], None)"
  by (simp add: report_def)

lemma report_receipt:
  "stateMutability abiItem \<noteq> Some ''view'' \<Longrightarrow> report abiItem res None = ([LogReceipt res], None)"
  by (simp add: report_def reportOutputs_def)

lemma reportOutputs_quiet:
  assumes "reportOutputs abiItem res = Inr oevs"
  shows "receiptsLogged oevs = [] \<and> errorsLogged oevs = [] \<and> attempts oevs = []"
proof -
  have m: "receiptsLogged (map (\<lambda>i. PrintOutput (f i) (g i) (h i)) js) = [] \<and>
        errorsLogged (map (\<lambda>i. PrintOutput (f i) (g i) (h i)) js) = [] \<and>
        attempts (map (\<lambda>i. PrintOutput (f i) (g i) (h i)) js) = []"
    for f g h and js :: "nat list"
    by (induction js) (auto simp: attempts_def)
  show ?thesis
    using assms m
    by (auto simp: reportOutputs_def attempts_def split: if_splits option.splits list.splits)
qed

lemma pickFunction_reenter:
  "snd (body c r) = Reenter \<Longrightarrow>
     pickFunction e c (r # rs) rest =
       prepend (PromptFunction # fst (body c r)) (pickFunction e c rs rest)"
  by (cases "body c r") simp

lemma pickFunction_thrown:
  "snd (body c r) = Thrown err \<Longrightarrow>
     pickFunction e c (r # rs) rest = (PromptFunction # fst (body c r), Fatal err)"
  by (cases "body c r") simp

lemma report_attempts: "attempts (fst (report abiItem res err)) = []"
proof (cases err)
  case None
  show ?thesis
  proof (cases "reportOutputs abiItem res")
    case (Inl e)
    then show ?thesis
      using None by (simp add: report_def attempts_Nil attempts_Cons)
  next
    case (Inr oevs)
    then show ?thesis
      using None reportOutputs_quiet [OF Inr] by (simp add: report_def attempts_Nil attempts_Cons)
  qed
next
  case (Some e)
  then show ?thesis
    by (simp add: report_def attempts_Nil attempts_Cons)
qed

lemma body_uses_found_entry:
  assumes "abiItemSignature r \<noteq> escItem"
    and "findAbiItem (contract_abi c) (abiItemSignature r) = Some abiItem"
    and "inputs abiItem = Some ins"
    and "snd (promptInputs ins r) = Inr args"
  shows "(\<exists>post. fst (body c r) = map (\<lambda>input. PromptInput (inputMessage input)) ins @ post) \<and>
         (stateMutability abiItem = Some ''view'' \<and>
          bareMethod c (abiItemName (abiItemSignature r)) \<longrightarrow>
            attempts (fst (body c r)) = [Query (abiItemName (abiItemSignature r)) args]) \<and>
         (stateMutability abiItem \<noteq> Some ''view'' \<and> confirmation r \<and>
          bareMethod c (abiItemName (abiItemSignature r)) \<longrightarrow>
            (\<exists>more. attempts (fst (body c r)) =
                      Stage (abiItemName (abiItemSignature r)) args # more)) \<and>
         (\<not> bareMethod c (abiItemName (abiItemSignature r)) \<longrightarrow> attempts (fst (body c r)) = [])"
proof -
  let ?nm = "abiItemName (abiItemSignature r)"
  let ?pevs = "fst (promptInputs ins r)"
  have pe: "?pevs = map (\<lambda>input. PromptInput (inputMessage input)) ins"
    using assms(4) by (rule promptInputs_events)
  have b: "body c r =
     (case callFunction c abiItem ?nm args r of
        Declined evs \<Rightarrow> (?pevs @ evs, Reenter)
      | Faulted evs e \<Rightarrow> (?pevs @ evs, Thrown e)
      | Completed evs res err \<Rightarrow>
          (case report abiItem res err of
             (revs, None) \<Rightarrow> (?pevs @ evs @ revs, Reenter)
           | (revs, Some e) \<Rightarrow> (?pevs @ evs @ revs, Thrown e)))"
    using assms by (rule body_found)
  have 1: "\<exists>post. fst (body c r) = map (\<lambda>input. PromptInput (inputMessage input)) ins @ post"
    unfolding b pe by (auto split: dispatched.splits prod.splits option.splits)
  have att: "attempts (fst (body c r)) =
     (case callFunction c abiItem ?nm args r of
        Declined evs \<Rightarrow> attempts evs
      | Faulted evs e \<Rightarrow> attempts evs
      | Completed evs res err \<Rightarrow> attempts evs)"
    unfolding b using report_attempts [of abiItem]
    by (auto simp: attempts_append promptInputs_quiet split: dispatched.splits prod.splits option.splits)
       (metis fst_conv)+
  have 2: "stateMutability abiItem = Some ''view'' \<and> bareMethod c ?nm \<longrightarrow>
            attempts (fst (body c r)) = [Query ?nm args]"
    unfolding att by (auto simp: callFunction_view attempts_Nil attempts_Cons split: sum.splits)
  have 3: "stateMutability abiItem \<noteq> Some ''view'' \<and> confirmation r \<and> bareMethod c ?nm \<longrightarrow>
            (\<exists>more. attempts (fst (body c r)) = Stage ?nm args # more)"
    unfolding att
    by (auto simp: callFunction_confirmed attempts_Nil attempts_Cons split: sum.splits)
  have 4: "\<not> bareMethod c ?nm \<longrightarrow> attempts (fst (body c r)) = []"
    unfolding att
    by (auto simp: callFunction_def attempts_Nil attempts_Cons)
  show ?thesis
    using 1 2 3 4 by blast
qed

lemma example_rejected:
  "abiItemSignature rejectedSubmission \<noteq> escItem"
  "findAbiItem (contract_abi token) (abiItemSignature rejectedSubmission) = Some transferFrom"
  "inputs transferFrom = Some transferFromInputs"
  "snd (promptInputs transferFromInputs rejectedSubmission) =
     Inr [Single ''0xabc'', Single ''0xabc'', Single ''0xabc'']"
  "stateMutability transferFrom \<noteq> Some ''view''"
  "confirmation rejectedSubmission"
  "abiItemName (abiItemSignature rejectedSubmission) = ''transferFrom''"
  "bareMethod token ''transferFrom''"
  "staged rejectedSubmission = Inr ''0xhash''"
  "submitted rejectedSubmission = Inl (Failure ''nonce too low'')"
  by code_simp+

lemma example_overload:
  "abiItemSignature overloadPick \<noteq> escItem"
  "findAbiItem (contract_abi token) (abiItemSignature overloadPick) = Some transferTo"
  "inputs transferTo = Some [\<lparr>param_name = ''to'', param_type = ''address''\<rparr>]"
  "snd (promptInputs [\<lparr>param_name = ''to'', param_type = ''address''\<rparr>] overloadPick) =
     Inr [Single ''0xabc'']"
  "stateMutability transferTo \<noteq> Some ''view''"
  "confirmation overloadPick"
  "abiItemName (abiItemSignature overloadPick) = ''transfer''"
  "\<not> bareMethod token ''transfer''"
  by code_simp+

section \<open>The phases of a transaction\<close>



text \<open>C2: for a function that is not a view, once the parameters are read the confirmation
  is prompted after the parameter prompts and before anything is attempted; and when the
  user declines, nothing follows the confirmation prompt, no read call and no phase of a
  transaction is attempted, and the driver calls \<^verbatim>\<open>pickFunction\<close> again on the same
  contract.\<close>

theorem declined_call_attempts_nothing:
  assumes "abiItemSignature r \<noteq> escItem"
    and "findAbiItem (contract_abi c) (abiItemSignature r) = Some abiItem"
    and "inputs abiItem = Some ins"
    and "snd (promptInputs ins r) = Inr args"
    and "stateMutability abiItem \<noteq> Some ''view''"
  shows "\<exists>post. fst (body c r) = fst (promptInputs ins r) @ PromptConfirm # post \<and>
           attempts (fst (promptInputs ins r)) = [] \<and>
           (\<not> confirmation r \<longrightarrow>
              post = [] \<and> attempts (fst (body c r)) = [] \<and> snd (body c r) = Reenter \<and>
              pickFunction e c (r # rs) rest =
                prepend (PromptFunction # fst (body c r)) (pickFunction e c rs rest))"
proof (cases "confirmation r")
  case True
  then show ?thesis
    using assms
    by (cases "bareMethod c (abiItemName (abiItemSignature r))")
      (simp_all add: body_found callFunction_confirmed callFunction_no_method report_error
        report_receipt promptInputs_quiet split: sum.splits)
next
  case False
  have b: "body c r = (fst (promptInputs ins r) @ [PromptConfirm], Reenter)"
    using assms False by (simp add: body_found callFunction_def)
  have "pickFunction e c (r # rs) rest =
          prepend (PromptFunction # fst (body c r)) (pickFunction e c rs rest)"
    by (rule pickFunction_reenter) (simp add: b)
  then show ?thesis
    using b False by (simp add: attempts_append promptInputs_quiet attempts_Nil attempts_Cons)
qed

lemma example_declined:
  "abiItemSignature declinedTransfer \<noteq> escItem"
  "findAbiItem (contract_abi token) (abiItemSignature declinedTransfer) = Some transferTo"
  "snd (promptInputs [\<lparr>param_name = ''to'', param_type = ''address''\<rparr>] declinedTransfer) =
     Inr [Single ''0xabc'']"
  "\<not> confirmation declinedTransfer"
  "fst (promptInputs [\<lparr>param_name = ''to'', param_type = ''address''\<rparr>] declinedTransfer) =
     [PromptInput ''to'']"
  by code_simp+

theorem declined_call_attempts_nothing_witness:
  "\<not> confirmation declinedTransfer \<and>
   fst (body token declinedTransfer) = [PromptInput ''to'', PromptConfirm] \<and>
   attempts (fst (body token declinedTransfer)) = [] \<and>
   snd (body token declinedTransfer) = Reenter \<and>
   pickFunction statusOnly token [declinedTransfer] [] =
     ([PromptFunction, PromptInput ''to'', PromptConfirm, PromptFunction], Suspended)"
proof -
  obtain post where
    p: "fst (body token declinedTransfer) =
          fst (promptInputs [\<lparr>param_name = ''to'', param_type = ''address''\<rparr>] declinedTransfer)
            @ PromptConfirm # post"
    and d: "\<not> confirmation declinedTransfer \<longrightarrow>
              post = [] \<and> attempts (fst (body token declinedTransfer)) = [] \<and>
              snd (body token declinedTransfer) = Reenter \<and>
              pickFunction statusOnly token (declinedTransfer # []) [] =
                prepend (PromptFunction # fst (body token declinedTransfer))
                  (pickFunction statusOnly token [] [])"
    using declined_call_attempts_nothing [OF example_declined(1,2) example_overload(3) example_declined(3)
                example_overload(5), of statusOnly "[]" "[]"]
    by blast
  show ?thesis
    using p d example_declined(4,5) by (simp add: prepend_def)
qed

section \<open>Reporting a read call without outputs\<close>

text \<open>C9: when a read call succeeds (the parameters are read, the binding has the method and
  the call returns) on a function whose ABI entry declares the empty list of outputs, the
  report takes the branch for at most one output, reads the first element of the empty list
  and faults on it with a \<^verbatim>\<open>TypeError\<close>: after the result has gone to
  \<^verbatim>\<open>logReceipt\<close> nothing is printed, the pass ends by the thrown error, and the error
  ends the session.\<close>

theorem empty_outputs_report_faults:
  assumes "abiItemSignature r \<noteq> escItem"
    and "findAbiItem (contract_abi c) (abiItemSignature r) = Some abiItem"
    and "inputs abiItem = Some ins"
    and "snd (promptInputs ins r) = Inr args"
    and "stateMutability abiItem = Some ''view''"
    and "bareMethod c (abiItemName (abiItemSignature r))"
    and "outputs abiItem = Some []"
    and "queried r = Inr v"
  shows "reportOutputs abiItem (Returned v) = Inl TypeError \<and>
         body c r = (fst (promptInputs ins r) @
                       [Query (abiItemName (abiItemSignature r)) args,
                        LogReceipt (Returned v)], Thrown TypeError) \<and>
         pickFunction e c (r # rs) rest = (PromptFunction # fst (body c r), Fatal TypeError)"
proof -
  have ro: "reportOutputs abiItem (Returned v) = Inl TypeError"
    using assms by (simp add: reportOutputs_def)
  have b: "body c r = (fst (promptInputs ins r) @
                       [Query (abiItemName (abiItemSignature r)) args,
                        LogReceipt (Returned v)], Thrown TypeError)"
    using assms ro by (simp add: body_found callFunction_def report_def)
  have "pickFunction e c (r # rs) rest = (PromptFunction # fst (body c r), Fatal TypeError)"
    by (rule pickFunction_thrown) (simp add: b)
  then show ?thesis
    using ro b by simp
qed

lemma example_status_query:
  "abiItemSignature statusQuery \<noteq> escItem"
  "findAbiItem (contract_abi systemStatus) (abiItemSignature statusQuery) = Some requireSystemActive"
  "inputs requireSystemActive = Some []"
  "snd (promptInputs [] statusQuery) = Inr []"
  "stateMutability requireSystemActive = Some ''view''"
  "bareMethod systemStatus (abiItemName (abiItemSignature statusQuery))"
  "outputs requireSystemActive = Some []"
  "queried statusQuery = Inr (Tuple [])"
  "abiItemName (abiItemSignature statusQuery) = ''requireSystemActive''"
  "fst (promptInputs [] statusQuery) = []"
  by code_simp+

theorem empty_outputs_report_faults_witness:
  "body systemStatus statusQuery =
     ([Query ''requireSystemActive'' [], LogReceipt (Returned (Tuple []))], Thrown TypeError) \<and>
   pickFunction statusOnly systemStatus [statusQuery] [] =
     ([PromptFunction, Query ''requireSystemActive'' [], LogReceipt (Returned (Tuple []))],
      Fatal TypeError)"
  using empty_outputs_report_faults [OF example_status_query(1-8), of statusOnly "[]" "[]"]
  by (simp add: example_status_query(9,10))

section \<open>After the outcome\<close>

lemma body_failure:
  assumes "abiItemSignature r \<noteq> escItem"
    and "findAbiItem (contract_abi c) (abiItemSignature r) = Some abiItem"
    and "inputs abiItem = Some ins"
    and "snd (promptInputs ins r) = Inr args"
    and "stateMutability abiItem = Some ''view'' \<or>
         confirmation r \<and> bareMethod c (abiItemName (abiItemSignature r))"
    and "failureDetail c abiItem (abiItemName (abiItemSignature r)) r = Some x"
  shows "errorsLogged (fst (body c r)) = [x] \<and> receiptsLogged (fst (body c r)) = [] \<and>
         snd (body c r) = Reenter"
proof (cases "stateMutability abiItem = Some ''view''")
  case True
  then show ?thesis
    using assms
    by (auto simp: body_found callFunction_view report_error failureDetail_def errorsLogged_append
        receiptsLogged_append promptInputs_quiet split: sum.splits if_splits)
next
  case False
  then show ?thesis
    using assms
    by (auto simp: body_found callFunction_confirmed report_error failureDetail_def
        errorsLogged_append receiptsLogged_append promptInputs_quiet split: sum.splits)
qed

lemma body_receipt:
  assumes "abiItemSignature r \<noteq> escItem"
    and "findAbiItem (contract_abi c) (abiItemSignature r) = Some abiItem"
    and "inputs abiItem = Some ins"
    and "snd (promptInputs ins r) = Inr args"
    and "stateMutability abiItem \<noteq> Some ''view''" and "confirmation r"
    and "bareMethod c (abiItemName (abiItemSignature r))"
    and "failureDetail c abiItem (abiItemName (abiItemSignature r)) r = None"
  shows "\<exists>rc. receipted r = Inr rc \<and> receiptsLogged (fst (body c r)) = [Receipt rc] \<and>
           errorsLogged (fst (body c r)) = [] \<and> snd (body c r) = Reenter"
  using assms
  by (auto simp: body_found callFunction_confirmed report_receipt failureDetail_def
      errorsLogged_append receiptsLogged_append promptInputs_quiet split: sum.splits)

lemma body_value:
  assumes "abiItemSignature r \<noteq> escItem"
    and "findAbiItem (contract_abi c) (abiItemSignature r) = Some abiItem"
    and "inputs abiItem = Some ins"
    and "snd (promptInputs ins r) = Inr args"
    and "stateMutability abiItem = Some ''view''"
    and "bareMethod c (abiItemName (abiItemSignature r))"
    and "queried r = Inr v"
    and "reportOutputs abiItem (Returned v) = Inr oevs"
  shows "receiptsLogged (fst (body c r)) = [Returned v] \<and> errorsLogged (fst (body c r)) = [] \<and>
         snd (body c r) = Reenter"
  using assms reportOutputs_quiet [OF assms(8)]
  by (simp add: body_found callFunction_view report_def errorsLogged_append
      receiptsLogged_append promptInputs_quiet)

lemma action_exit:
  "(snd (action e script) = Some 1) = (\<exists>x. snd (pickContract e script) = Fatal x)"
  by (cases "pickContract e script"; cases "snd (pickContract e script)") (auto simp: action_def)

lemma resolution_fatal:
  assumes "getTarget e contractName = None \<or>
           (\<exists>tgt. getTarget e contractName = Some tgt \<and> getSource e (source tgt) = None)"
  shows "snd (pickContract e ((contractName, rounds) # rest)) = Fatal TypeError \<and>
         PromptFunction \<notin> set (fst (pickContract e ((contractName, rounds) # rest))) \<and>
         snd (action e ((contractName, rounds) # rest)) = Some 1"
proof -
  have f: "snd (pickContract e ((contractName, rounds) # rest)) = Fatal TypeError"
    and p: "PromptFunction \<notin> set (fst (pickContract e ((contractName, rounds) # rest)))"
    using assms by auto
  from f have "snd (action e ((contractName, rounds) # rest)) = Some 1"
    using action_exit by blast
  with f p show ?thesis
    by blast
qed

text \<open>C3, as the claim states it, fails for the first of its five failure kinds: in the
  deployment that knows \<open>SystemStatus\<close> only, the pinned entry \<open>Synthetix\<close> is presented,
  picking it finds no target, and the session ends at once with exit code 1 and without ever
  reaching the function prompt.\<close>

theorem resolution_failure_ends_session:
  "''Synthetix'' \<in> set (searchTargets (pinnedTargets (targetNames statusOnly)) []) \<and>
   getTarget statusOnly ''Synthetix'' = None \<and>
   action statusOnly [(''Synthetix'', [statusQuery])] =
     ([PromptContract, PrintFatal TypeError], Some 1)"
  by code_simp

text \<open>C3, amended: for a call that the Call Driver makes once the parameters are read (a read
  call, or a confirmed transaction for which the binding has a method of the chosen name), a
  failure of the read call, of the staging, of the submission or of the wait for the receipt
  is reported as the one error and the pass ends by calling \<^verbatim>\<open>pickFunction\<close> again; so
  does a transaction that goes through, after its receipt is reported, and a read call whose
  result is reported without a fault; and a pass that ends so continues with the function
  prompt of the same contract. A resolution failure is not captured: when the registry knows
  no target for the picked name, or no source for the target, the error leaves
  \<^verbatim>\<open>pickContract\<close> before any function prompt and ends the session. The exit code is
  set to 1 exactly when an error reaches the top-level action.\<close>

theorem call_outcomes_reenter_selector:
  assumes "abiItemSignature r \<noteq> escItem"
    and "findAbiItem (contract_abi c) (abiItemSignature r) = Some abiItem"
    and "inputs abiItem = Some ins"
    and "snd (promptInputs ins r) = Inr args"
    and "stateMutability abiItem = Some ''view'' \<or>
         confirmation r \<and> bareMethod c (abiItemName (abiItemSignature r))"
  shows "(\<forall>x. failureDetail c abiItem (abiItemName (abiItemSignature r)) r = Some x \<longrightarrow>
            errorsLogged (fst (body c r)) = [x] \<and> snd (body c r) = Reenter) \<and>
         (failureDetail c abiItem (abiItemName (abiItemSignature r)) r = None \<and>
          stateMutability abiItem \<noteq> Some ''view'' \<longrightarrow>
            (\<exists>rc. receipted r = Inr rc \<and> receiptsLogged (fst (body c r)) = [Receipt rc]) \<and>
            snd (body c r) = Reenter) \<and>
         (\<forall>v oevs. stateMutability abiItem = Some ''view'' \<and>
                   bareMethod c (abiItemName (abiItemSignature r)) \<and> queried r = Inr v \<and>
                   reportOutputs abiItem (Returned v) = Inr oevs \<longrightarrow>
            receiptsLogged (fst (body c r)) = [Returned v] \<and> snd (body c r) = Reenter) \<and>
         (snd (body c r) = Reenter \<longrightarrow>
            pickFunction e c (r # rs) rest =
              prepend (PromptFunction # fst (body c r)) (pickFunction e c rs rest)) \<and>
         (\<forall>contractName rounds.
            getTarget e contractName = None \<or>
            (\<exists>tgt. getTarget e contractName = Some tgt \<and> getSource e (source tgt) = None) \<longrightarrow>
            snd (pickContract e ((contractName, rounds) # rest)) = Fatal TypeError \<and>
            PromptFunction \<notin> set (fst (pickContract e ((contractName, rounds) # rest))) \<and>
            snd (action e ((contractName, rounds) # rest)) = Some 1) \<and>
         (\<forall>script. (snd (action e script) = Some 1) = (\<exists>x. snd (pickContract e script) = Fatal x))"
proof -
  have 1: "\<forall>x. failureDetail c abiItem (abiItemName (abiItemSignature r)) r = Some x \<longrightarrow>
            errorsLogged (fst (body c r)) = [x] \<and> snd (body c r) = Reenter"
    using body_failure [OF assms] by blast
  have 2: "failureDetail c abiItem (abiItemName (abiItemSignature r)) r = None \<and>
          stateMutability abiItem \<noteq> Some ''view'' \<longrightarrow>
            (\<exists>rc. receipted r = Inr rc \<and> receiptsLogged (fst (body c r)) = [Receipt rc]) \<and>
            snd (body c r) = Reenter"
    using body_receipt [OF assms(1-4)] assms(5) by blast
  have 3: "\<forall>v oevs. stateMutability abiItem = Some ''view'' \<and>
                   bareMethod c (abiItemName (abiItemSignature r)) \<and> queried r = Inr v \<and>
                   reportOutputs abiItem (Returned v) = Inr oevs \<longrightarrow>
            receiptsLogged (fst (body c r)) = [Returned v] \<and> snd (body c r) = Reenter"
    using body_value [OF assms(1-4)] by blast
  have 4: "snd (body c r) = Reenter \<longrightarrow>
            pickFunction e c (r # rs) rest =
              prepend (PromptFunction # fst (body c r)) (pickFunction e c rs rest)"
    using pickFunction_reenter by blast
  have 5: "\<forall>contractName rounds.
            getTarget e contractName = None \<or>
            (\<exists>tgt. getTarget e contractName = Some tgt \<and> getSource e (source tgt) = None) \<longrightarrow>
            snd (pickContract e ((contractName, rounds) # rest)) = Fatal TypeError \<and>
            PromptFunction \<notin> set (fst (pickContract e ((contractName, rounds) # rest))) \<and>
            snd (action e ((contractName, rounds) # rest)) = Some 1"
    using resolution_fatal by blast
  have 6: "\<forall>script. (snd (action e script) = Some 1) = (\<exists>x. snd (pickContract e script) = Fatal x)"
    using action_exit by blast
  show ?thesis
    using 1 2 3 4 5 6 by blast
qed

lemma example_rejected_detail:
  "failureDetail token transferFrom ''transferFrom'' rejectedSubmission =
     Some (Failure ''nonce too low'')"
  by code_simp

lemma example_mined:
  "abiItemSignature minedTransfer \<noteq> escItem"
  "findAbiItem (contract_abi token) (abiItemSignature minedTransfer) = Some transferFrom"
  "snd (promptInputs transferFromInputs minedTransfer) =
     Inr [Single ''0xabc'', Single ''0xabc'', Single ''0xabc'']"
  "confirmation minedTransfer"
  "abiItemName (abiItemSignature minedTransfer) = ''transferFrom''"
  "failureDetail token transferFrom ''transferFrom'' minedTransfer = None"
  "receipted minedTransfer = Inr ''receipt of 0xhash''"
  by code_simp+

lemma example_balance:
  "abiItemSignature balanceQuery \<noteq> escItem"
  "findAbiItem (contract_abi token) (abiItemSignature balanceQuery) = Some balanceOf"
  "inputs balanceOf = Some [\<lparr>param_name = ''account'', param_type = ''address''\<rparr>]"
  "snd (promptInputs [\<lparr>param_name = ''account'', param_type = ''address''\<rparr>] balanceQuery) =
     Inr [Single ''0xabc'']"
  "stateMutability balanceOf = Some ''view''"
  "abiItemName (abiItemSignature balanceQuery) = ''balanceOf''"
  "bareMethod token ''balanceOf''"
  "queried balanceQuery = Inr (BigNumber 5)"
  "reportOutputs balanceOf (Returned (BigNumber 5)) =
     Inr [PrintOutput [] ''uint256'' (Some (BigNumber 5))]"
  by code_simp+

theorem call_outcomes_reenter_selector_witness:
  "errorsLogged (fst (body token rejectedSubmission)) = [Failure ''nonce too low''] \<and>
   snd (body token rejectedSubmission) = Reenter \<and>
   pickFunction statusOnly token [rejectedSubmission] [] =
     prepend (PromptFunction # fst (body token rejectedSubmission))
       (pickFunction statusOnly token [] []) \<and>
   receiptsLogged (fst (body token minedTransfer)) = [Receipt ''receipt of 0xhash''] \<and>
   snd (body token minedTransfer) = Reenter \<and>
   receiptsLogged (fst (body token balanceQuery)) = [Returned (BigNumber 5)] \<and>
   snd (body token balanceQuery) = Reenter \<and>
   snd (action statusOnly [(''Synthetix'', [])]) = Some 1"
proof -
  have made: "stateMutability transferFrom = Some ''view'' \<or>
      confirmation rejectedSubmission \<and>
      bareMethod token (abiItemName (abiItemSignature rejectedSubmission))"
    by (simp add: example_rejected)
  have made': "stateMutability transferFrom = Some ''view'' \<or>
      confirmation minedTransfer \<and> bareMethod token (abiItemName (abiItemSignature minedTransfer))"
    by (simp add: example_mined example_rejected(8))
  have made'': "stateMutability balanceOf = Some ''view'' \<or>
      confirmation balanceQuery \<and> bareMethod token (abiItemName (abiItemSignature balanceQuery))"
    by (simp add: example_balance)
  have gone: "getTarget statusOnly ''Synthetix'' = None"
    by code_simp
  note a = call_outcomes_reenter_selector [OF example_rejected(1-4) made, of statusOnly "[]" "[]"]
  note b = call_outcomes_reenter_selector [OF example_mined(1,2) example_rejected(3) example_mined(3) made',
               of statusOnly "[]" "[]"]
  note c = call_outcomes_reenter_selector [OF example_balance(1-4) made'', of statusOnly "[]" "[]"]
  have a1: "errorsLogged (fst (body token rejectedSubmission)) = [Failure ''nonce too low''] \<and>
       snd (body token rejectedSubmission) = Reenter"
    using a example_rejected_detail by (simp add: example_rejected(7))
  then have a2: "pickFunction statusOnly token [rejectedSubmission] [] =
     prepend (PromptFunction # fst (body token rejectedSubmission))
       (pickFunction statusOnly token [] [])"
    using a by blast
  have a3: "snd (action statusOnly [(''Synthetix'', [])]) = Some 1"
    using a gone by blast
  have b1: "receiptsLogged (fst (body token minedTransfer)) = [Receipt ''receipt of 0xhash''] \<and>
       snd (body token minedTransfer) = Reenter"
    using b example_mined(6,7) example_rejected(5) by (auto simp: example_mined(5))
  have c1: "receiptsLogged (fst (body token balanceQuery)) = [Returned (BigNumber 5)] \<and>
       snd (body token balanceQuery) = Reenter"
    using c example_balance(5,7,8,9) by (simp add: example_balance(6))
  show ?thesis
    using a1 a2 a3 b1 c1 by blast
qed

section \<open>From the chosen signature back to an ABI entry\<close>

lemma abiItemName_takeWhile: "abiItemName s = takeWhile (\<lambda>c. c \<noteq> CHR ''('') s"
proof -
  obtain ps where "str_split (CHR ''('') s = takeWhile (\<lambda>c. c \<noteq> CHR ''('') s # ps"
    using str_split_head by blast
  then show ?thesis
    by (simp add: abiItemName_def)
qed

lemma abiItemName_reduceSignature:
  assumes "name item = Some n" and "CHR ''('' \<notin> set n"
  shows "abiItemName (reduceSignature item) = n"
proof -
  obtain rest where "reduceSignature item = n @ CHR ''('' # rest"
    using assms(1) by (simp add: reduceSignature_def nameText_def Let_def)
  then show ?thesis
    using assms(2) by (simp add: abiItemName_takeWhile takeWhile_append)
qed

lemma example_issue:
  "searchAbi (contract_abi issuer) ''issue'' = [reduceSignature issueFunction]"
  "findAbiItem (contract_abi issuer) (reduceSignature issueFunction) = Some issuedEvent"
  "issuedEvent \<noteq> issueFunction"
  "bareMethod issuer ''issue''"
  "body issuer issuePick =
     ([PromptInput ''account'', PromptInput ''value'', PromptConfirm,
       Stage ''issue'' [Single ''7'', Single ''7''], Submit ''0xhash'', AwaitReceipt ''0xhash'',
       LogReceipt (Receipt ''receipt of 0xhash'')], Reenter)"
  by code_simp+

lemma example_overload_presented:
  "reduceSignature transferToValue \<in> set (searchAbi tokenAbi ''transfer'')"
  "findAbiItem tokenAbi (reduceSignature transferToValue) = Some transferTo"
  "transferTo \<noteq> transferToValue"
  "body token overloadPick = ([PromptInput ''to'', PromptConfirm], Thrown TypeError)"
  "attempts (fst (body token overloadPick)) = []"
  by code_simp+

text \<open>C10, as the claim states it, fails for overloads: with the two entries named
  \<open>transfer\<close>, the signature of the second is presented, choosing it finds the first, the
  one parameter of the first is prompted and the user confirms; but the binding has no
  method of the overloaded name, so no entry is executed: the pass ends by a thrown
  \<^verbatim>\<open>TypeError\<close> without any attempt.\<close>

theorem overloaded_name_executes_nothing:
  "reduceSignature transferToValue \<in> set (searchAbi tokenAbi ''transfer'') \<and>
   abiItemSignature overloadPick = reduceSignature transferToValue \<and>
   confirmation overloadPick \<and>
   findAbiItem tokenAbi (reduceSignature transferToValue) = Some transferTo \<and>
   body token overloadPick = ([PromptInput ''to'', PromptConfirm], Thrown TypeError) \<and>
   attempts (fst (body token overloadPick)) = []"
  by code_simp

text \<open>C10, amended: the entry used after a signature has been chosen is the first entry of
  the whole ABI whose name is the text of the signature before its first \<open>(\<close>; for the
  signature of an entry, that is the first entry of the ABI with the same name, of whatever
  type. Its inputs are the ones prompted, and it decides between read call and transaction;
  what is called is the binding's method of that name, with the arguments read for that
  entry; when the binding has no method of the name, as for an overloaded name, nothing is
  attempted. With two entries of one name the entry used can differ from the one chosen: in
  the example an event comes before the function of its name, the function's signature is
  the one presented, choosing it finds the event, the parameters of the event are prompted
  and the method is called with them.\<close>

theorem chosen_signature_finds_first_of_name:
  "findAbiItem items chosen =
     List.find (\<lambda>item. name item = Some (takeWhile (\<lambda>c. c \<noteq> CHR ''('') chosen)) items \<and>
   (\<forall>item n. name item = Some n \<and> CHR ''('' \<notin> set n \<longrightarrow>
      findAbiItem items (reduceSignature item) = List.find (\<lambda>entry. name entry = Some n) items) \<and>
   (\<forall>c r abiItem ins args.
      abiItemSignature r \<noteq> escItem \<and>
      findAbiItem (contract_abi c) (abiItemSignature r) = Some abiItem \<and>
      inputs abiItem = Some ins \<and> snd (promptInputs ins r) = Inr args \<longrightarrow>
        (\<exists>post. fst (body c r) = map (\<lambda>input. PromptInput (inputMessage input)) ins @ post) \<and>
        (stateMutability abiItem = Some ''view'' \<and>
         bareMethod c (abiItemName (abiItemSignature r)) \<longrightarrow>
           attempts (fst (body c r)) = [Query (abiItemName (abiItemSignature r)) args]) \<and>
        (stateMutability abiItem \<noteq> Some ''view'' \<and> confirmation r \<and>
         bareMethod c (abiItemName (abiItemSignature r)) \<longrightarrow>
           (\<exists>more. attempts (fst (body c r)) =
                     Stage (abiItemName (abiItemSignature r)) args # more)) \<and>
        (\<not> bareMethod c (abiItemName (abiItemSignature r)) \<longrightarrow>
           attempts (fst (body c r)) = [])) \<and>
   searchAbi (contract_abi issuer) ''issue'' = [reduceSignature issueFunction] \<and>
   findAbiItem (contract_abi issuer) (reduceSignature issueFunction) = Some issuedEvent \<and>
   issuedEvent \<noteq> issueFunction \<and>
   body issuer issuePick =
     ([PromptInput ''account'', PromptInput ''value'', PromptConfirm,
       Stage ''issue'' [Single ''7'', Single ''7''], Submit ''0xhash'', AwaitReceipt ''0xhash'',
       LogReceipt (Receipt ''receipt of 0xhash'')], Reenter)"
proof -
  have 1: "findAbiItem items chosen =
     List.find (\<lambda>item. name item = Some (takeWhile (\<lambda>c. c \<noteq> CHR ''('') chosen)) items"
    by (simp add: findAbiItem_def abiItemName_takeWhile)
  have 2: "\<forall>item n. name item = Some n \<and> CHR ''('' \<notin> set n \<longrightarrow>
      findAbiItem items (reduceSignature item) = List.find (\<lambda>entry. name entry = Some n) items"
    by (simp add: findAbiItem_def abiItemName_reduceSignature)
  have 3: "\<forall>c r abiItem ins args.
      abiItemSignature r \<noteq> escItem \<and>
      findAbiItem (contract_abi c) (abiItemSignature r) = Some abiItem \<and>
      inputs abiItem = Some ins \<and> snd (promptInputs ins r) = Inr args \<longrightarrow>
        (\<exists>post. fst (body c r) = map (\<lambda>input. PromptInput (inputMessage input)) ins @ post) \<and>
        (stateMutability abiItem = Some ''view'' \<and>
         bareMethod c (abiItemName (abiItemSignature r)) \<longrightarrow>
           attempts (fst (body c r)) = [Query (abiItemName (abiItemSignature r)) args]) \<and>
        (stateMutability abiItem \<noteq> Some ''view'' \<and> confirmation r \<and>
         bareMethod c (abiItemName (abiItemSignature r)) \<longrightarrow>
           (\<exists>more. attempts (fst (body c r)) =
                     Stage (abiItemName (abiItemSignature r)) args # more)) \<and>
        (\<not> bareMethod c (abiItemName (abiItemSignature r)) \<longrightarrow>
           attempts (fst (body c r)) = [])"
    using body_uses_found_entry by blast
  show ?thesis
    using 1 2 3 example_issue(1,2,3,5) by blast
qed

theorem chosen_signature_finds_first_of_name_witness:
  "name transferToValue = Some ''transfer'' \<and> CHR ''('' \<notin> set ''transfer'' \<and>
   List.find (\<lambda>entry. name entry = Some ''transfer'') tokenAbi = Some transferTo \<and>
   (\<exists>more. attempts (fst (body token rejectedSubmission)) =
      Stage ''transferFrom'' [Single ''0xabc'', Single ''0xabc'', Single ''0xabc''] # more) \<and>
   attempts (fst (body token overloadPick)) = []"
proof -
  note t = chosen_signature_finds_first_of_name [of tokenAbi "[]"]
  note lookup = t [THEN conjunct2, THEN conjunct1, rule_format]
  note usage = t [THEN conjunct2, THEN conjunct2, THEN conjunct1, rule_format]
  have n: "name transferToValue = Some ''transfer''"
    by (simp add: transferToValue_def)
  have p: "CHR ''('' \<notin> set ''transfer''"
    by simp
  have "findAbiItem tokenAbi (reduceSignature transferToValue) =
          List.find (\<lambda>entry. name entry = Some ''transfer'') tokenAbi"
    using lookup [of transferToValue "''transfer''"] n p by blast
  then have f: "List.find (\<lambda>entry. name entry = Some ''transfer'') tokenAbi = Some transferTo"
    using example_overload_presented(2) by simp
  have pre: "abiItemSignature rejectedSubmission \<noteq> escItem \<and>
      findAbiItem (contract_abi token) (abiItemSignature rejectedSubmission) = Some transferFrom \<and>
      inputs transferFrom = Some transferFromInputs \<and>
      snd (promptInputs transferFromInputs rejectedSubmission) =
        Inr [Single ''0xabc'', Single ''0xabc'', Single ''0xabc'']"
    using example_rejected(1-4) by blast
  have "stateMutability transferFrom \<noteq> Some ''view'' \<and> confirmation rejectedSubmission \<and>
        bareMethod token (abiItemName (abiItemSignature rejectedSubmission)) \<longrightarrow>
        (\<exists>more. attempts (fst (body token rejectedSubmission)) =
           Stage (abiItemName (abiItemSignature rejectedSubmission))
             [Single ''0xabc'', Single ''0xabc'', Single ''0xabc''] # more)"
    using usage [OF pre] by blast
  then have s: "\<exists>more. attempts (fst (body token rejectedSubmission)) =
      Stage ''transferFrom'' [Single ''0xabc'', Single ''0xabc'', Single ''0xabc''] # more"
    using example_rejected(5,6,8) by (simp add: example_rejected(7))
  have pre': "abiItemSignature overloadPick \<noteq> escItem \<and>
      findAbiItem (contract_abi token) (abiItemSignature overloadPick) = Some transferTo \<and>
      inputs transferTo = Some [\<lparr>param_name = ''to'', param_type = ''address''\<rparr>] \<and>
      snd (promptInputs [\<lparr>param_name = ''to'', param_type = ''address''\<rparr>] overloadPick) =
        Inr [Single ''0xabc'']"
    using example_overload(1-4) by blast
  have "\<not> bareMethod token (abiItemName (abiItemSignature overloadPick)) \<longrightarrow>
        attempts (fst (body token overloadPick)) = []"
    using usage [OF pre'] by blast
  then have o: "attempts (fst (body token overloadPick)) = []"
    using example_overload(8) by (simp add: example_overload(7))
  show ?thesis
    using n p f s o by blast
qed

end
